theory Spec2Isabelle
  imports Complex_Main "HOL-Library.Word"
begin

section \<open>Audio Quality Analytics: the dashboard script app.py\<close>

text \<open>
  The repository is one Streamlit script, \<^verbatim>\<open>app.py\<close>. Streamlit executes the script from
  top to bottom on every user interaction and rebuilds the page from the calls the
  script makes. One execution of the script is modelled as a function from its inputs
  (the uploaded file, whether the button was pressed in this execution, the outcome of
  the lazy imports, the file system and the state of the metric libraries) to the page
  it renders and the world it leaves behind.

  The static head of the page (page configuration, the CSS block, the sidebar table of
  thresholds, title and introduction, lines 14 to 58) is rendered unconditionally before
  the uploader and takes no part in what follows; the model starts at the uploader
  (line 60).
\<close>

subsection \<open>Values\<close>

text \<open>
  Scores and thresholds are Python numbers. Every finite \<^verbatim>\<open>float\<close> and every \<^verbatim>\<open>int\<close> is a
  rational number and Python compares them by their exact values, so a finite number is
  its value in \<^typ>\<open>rat\<close>; the infinities and NaN of \<^verbatim>\<open>float\<close> are values of their own.
\<close>

datatype pynum = Finite rat | PosInf | NegInf | NaN

text \<open>\<^verbatim>\<open>a >= b\<close> on numbers: false whenever an operand is NaN.\<close>

fun num_ge :: "pynum \<Rightarrow> pynum \<Rightarrow> bool" where
  "num_ge NaN _ = False"
| "num_ge _ NaN = False"
| "num_ge PosInf _ = True"
| "num_ge _ NegInf = True"
| "num_ge (Finite a) (Finite b) = (b \<le> a)"
| "num_ge (Finite _) PosInf = False"
| "num_ge NegInf _ = False"

text \<open>A score is a number or \<^verbatim>\<open>None\<close>.\<close>

type_synonym score = "pynum option"

type_synonym path = string

type_synonym bytes = "8 word list"

text \<open>
  The exceptions the script can meet. \<open>StopException\<close> is what \<^verbatim>\<open>st.stop()\<close> raises; it
  derives from \<^verbatim>\<open>BaseException\<close>, so \<^verbatim>\<open>except Exception\<close> does not catch it. All the others
  derive from \<^verbatim>\<open>Exception\<close>; \<open>Exception m\<close> stands for any exception of that family
  raised by a collaborator.
\<close>

datatype exn = ImportError string | TypeError | KeyError string | Exception string | StopException

fun is_Exception :: "exn \<Rightarrow> bool" where
  "is_Exception StopException = False"
| "is_Exception _ = True"

subsection \<open>Library functions used by the script\<close>

text \<open>
  Functions of Python, pandas and the operating system that the script calls and that
  are not code of the repository are parameters of the model: \<^verbatim>\<open>round(x, 3)\<close>,
  \<^verbatim>\<open>DataFrame.to_csv(index=False)\<close>, \<^verbatim>\<open>str.encode('utf-8')\<close>, the formatting of an
  exception by an f-string, \<^verbatim>\<open>traceback.format_exc()\<close>, the extension part of
  \<^verbatim>\<open>os.path.splitext\<close>, and the value pandas stores in a cell of a numeric column.
\<close>

record row =
  Metric :: string
  Description :: string
  Your_Threshold :: "pynum option"
  Score :: "pynum option"
  Result :: string

record dataframe =
  columns :: "string list"
  data :: "row list"

record lib =
  round3 :: "pynum \<Rightarrow> pynum"
  to_csv :: "dataframe \<Rightarrow> string"
  encode_utf8 :: "string \<Rightarrow> bytes"
  str_exc :: "exn \<Rightarrow> string"
  format_exc :: "exn \<Rightarrow> string"
  splitext_ext :: "string \<Rightarrow> string"
  column_cell :: "pynum option list \<Rightarrow> pynum option \<Rightarrow> pynum option"

text \<open>
  \<^verbatim>\<open>pd.DataFrame(final_rows)\<close> on a list of dictionaries that all have the same five
  keys: the columns are the keys in their order of insertion; an empty list gives a
  frame without columns. The frame has one row for each dictionary, in order. The
  columns Metric, Description and Result hold strings and are stored as they are. The
  columns Your Threshold and Score hold numbers and \<^verbatim>\<open>None\<close>: pandas gives such a column one
  type, chosen from all its values, and converts every value to it (in a column of
  floats \<^verbatim>\<open>None\<close> is stored as NaN, and an int may be stored as the nearest float).
  \<open>column_cell L values v\<close> is what pandas stores for the value \<open>v\<close> in a column built
  from \<open>values\<close>.
\<close>

definition pd_DataFrame :: "lib \<Rightarrow> row list \<Rightarrow> dataframe" where
  "pd_DataFrame L final_rows =
     \<lparr>columns = (if final_rows = [] then []
                 else [''Metric'', ''Description'', ''Your Threshold'', ''Score'', ''Result'']),
      data = map (\<lambda>r. r\<lparr>Your_Threshold :=
                            column_cell L (map Your_Threshold final_rows) (Your_Threshold r),
                          Score := column_cell L (map Score final_rows) (Score r)\<rparr>)
               final_rows\<rparr>"

subsection \<open>Configuration\<close>

text \<open>
  \<^verbatim>\<open>THRESHOLDS\<close> comes from the module \<^verbatim>\<open>config\<close>, which is not among the sources: it is
  a parameter \<open>T\<close>, a dictionary from metric names to numbers. \<^verbatim>\<open>METRIC_DESCRIPTIONS\<close> is
  read from \<^verbatim>\<open>config\<close> and then overwritten by the literal of lines 44 to 51.
\<close>

type_synonym thresholds = "string \<rightharpoonup> pynum"

definition METRIC_DESCRIPTIONS :: "string \<rightharpoonup> string" where
  "METRIC_DESCRIPTIONS = map_of
     [(''SRMR'', ''Technical measurement of reverberation and room acoustics''),
      (''SIGMOS_DISC'', ''Audio continuity and smoothness''),
      (''VQScore'', ''Overall voice quality assessment''),
      (''WVMOS'', ''Predicted subjective quality rating''),
      (''SIGMOS_OVRL'', ''Comprehensive overall audio quality''),
      (''SIGMOS_REVERB'', ''Perceived reverberation quality'')]"

subsection \<open>The page and the world\<close>

text \<open>
  The page is the sequence of Streamlit calls the script has made so far. The world is
  the file system (a dictionary from paths to contents), the page, and the state \<open>ext\<close>
  of the metric libraries, which only the runners read and change.
\<close>

datatype st_call =
    FileUploader string "string list"
  | Audio bytes string
  | Button string
  | Progress nat
  | Empty
  | Spinner string
  | StatusText string
  | Error string
  | Code string
  | Divider
  | Columns nat
  | MetricCard string int
  | Subheader string
  | Dataframe dataframe "string list"
  | DownloadButton string bytes string string string

record 'e world =
  files :: "path \<rightharpoonup> bytes"
  page :: "st_call list"
  ext :: 'e

definition st :: "st_call \<Rightarrow> 'e world \<Rightarrow> 'e world" where
  "st c w = w\<lparr>page := page w @ [c]\<rparr>"

record uploaded_file =
  name :: string
  getvalue :: bytes

subsection \<open>The metric runners\<close>

text \<open>
  The four runners live in the package \<^verbatim>\<open>metrics\<close>, outside the repository's sources.
  A runner takes the path of the audio file, may read and change the state of its
  library, and returns a result or raises. The SigMOS runner returns a dictionary of
  sub-scores (its items in insertion order) or \<^verbatim>\<open>None\<close>.
\<close>

type_synonym ('a, 'e) runner = "path \<Rightarrow> 'e \<Rightarrow> (exn + 'a) \<times> 'e"

record 'e runners =
  calculate_srmr :: "(score, 'e) runner"
  calculate_sigmos :: "((string \<times> score) list option, 'e) runner"
  calculate_vqscore :: "(score, 'e) runner"
  calculate_wvmos :: "(score, 'e) runner"

text \<open>
  \<^verbatim>\<open>status_text.text(label); value = runner(tmp_path)\<close>: the status line is set, then the
  runner is called on the current state of its library.
\<close>

definition run_step :: "string \<Rightarrow> ('a, 'e) runner \<Rightarrow> path \<Rightarrow> 'e world \<Rightarrow> (exn + 'a) \<times> 'e world" where
  "run_step label runner tmp_path w =
     (let w = st (StatusText label) w;
          (r, x) = runner tmp_path (ext w)
      in (r, w\<lparr>ext := x\<rparr>))"

text \<open>\<^verbatim>\<open>if scores_sigmos: for k, v in scores_sigmos.items(): results.append(...)\<close>\<close>

fun sigmos_items :: "(string \<times> score) list option \<Rightarrow> (string \<times> score) list" where
  "sigmos_items None = []"
| "sigmos_items (Some items) = items"

text \<open>Lines 89 to 113: the four runners in sequence, each appending to \<open>results\<close>.\<close>

definition collect_results ::
  "'e runners \<Rightarrow> path \<Rightarrow> 'e world \<Rightarrow> (exn + (string \<times> score) list) \<times> 'e world" where
  "collect_results rs tmp_path w =
     (case run_step ''Running SRMR...'' (calculate_srmr rs) tmp_path w of
        (Inl e, w) \<Rightarrow> (Inl e, w)
      | (Inr score_srmr, w) \<Rightarrow>
     (let results = [(''SRMR'', score_srmr)];
          w = st (Progress 25) w
      in case run_step ''Running SigMOS...'' (calculate_sigmos rs) tmp_path w of
        (Inl e, w) \<Rightarrow> (Inl e, w)
      | (Inr scores_sigmos, w) \<Rightarrow>
     (let results = results @ sigmos_items scores_sigmos;
          w = st (Progress 50) w
      in case run_step ''Running VQScore...'' (calculate_vqscore rs) tmp_path w of
        (Inl e, w) \<Rightarrow> (Inl e, w)
      | (Inr score_vq, w) \<Rightarrow>
     (let results = results @ [(''VQScore'', score_vq)];
          w = st (Progress 75) w
      in case run_step ''Running WVMOS...'' (calculate_wvmos rs) tmp_path w of
        (Inl e, w) \<Rightarrow> (Inl e, w)
      | (Inr score_wvmos, w) \<Rightarrow>
     (let results = results @ [(''WVMOS'', score_wvmos)];
          w = st (Progress 100) w
      in (Inr results, w))))))"

subsection \<open>Processing the results (lines 118 to 132)\<close>

text \<open>
  \<^verbatim>\<open>"PASS" if score is not None and score >= threshold else "FAIL"\<close>. The conjunction
  is evaluated left to right: with a score of \<^verbatim>\<open>None\<close> the comparison is not reached.
  With a number as score and \<^verbatim>\<open>None\<close> as threshold (\<^verbatim>\<open>THRESHOLDS.get\<close> found no entry) the
  comparison of a number with \<^verbatim>\<open>None\<close> raises \<^verbatim>\<open>TypeError\<close>.
\<close>

definition compute_status :: "score \<Rightarrow> pynum option \<Rightarrow> exn + string" where
  "compute_status score threshold =
     (case score of
        None \<Rightarrow> Inr ''FAIL''
      | Some s \<Rightarrow>
          (case threshold of
             None \<Rightarrow> Inl TypeError
           | Some t \<Rightarrow> Inr (if num_ge s t then ''PASS'' else ''FAIL'')))"

text \<open>\<^verbatim>\<open>METRIC_DESCRIPTIONS.get(metric_name, "")\<close>\<close>

definition description_of :: "string \<Rightarrow> string" where
  "description_of metric_name =
     (case METRIC_DESCRIPTIONS metric_name of None \<Rightarrow> [] | Some d \<Rightarrow> d)"

fun process_results :: "lib \<Rightarrow> thresholds \<Rightarrow> row list \<Rightarrow> (string \<times> score) list \<Rightarrow> exn + row list" where
  "process_results L T final_rows [] = Inr final_rows"
| "process_results L T final_rows ((metric_name, score) # items) =
     (let threshold = T metric_name
      in case compute_status score threshold of
           Inl e \<Rightarrow> Inl e
         | Inr status \<Rightarrow>
             process_results L T
               (final_rows @
                [\<lparr>Metric = metric_name,
                  Description = description_of metric_name,
                  Your_Threshold = threshold,
                  Score = map_option (round3 L) score,
                  Result = status\<rparr>])
               items)"

subsection \<open>Showing the report (lines 134 to 168)\<close>

text \<open>\<^verbatim>\<open>highlight_status\<close>, the style of a cell of the column Result.\<close>

definition highlight_status :: "string \<Rightarrow> string" where
  "highlight_status val =
     (let color = (if val = ''PASS'' then ''green'' else ''red'')
      in ''color: '' @ color @ ''; font-weight: bold'')"

text \<open>
  Selecting the column \<^verbatim>\<open>'Result'\<close> of a frame that has no such column raises
  \<^verbatim>\<open>KeyError\<close>.
\<close>

definition show_report :: "lib \<Rightarrow> row list \<Rightarrow> 'e world \<Rightarrow> exn option \<times> 'e world" where
  "show_report L final_rows w =
     (let df_results = pd_DataFrame L final_rows;
          w = st Divider w;
          w = st (Columns 3) w
      in if ''Result'' \<notin> set (columns df_results) then (Some (KeyError ''Result''), w)
         else
           (let pass_count = int (length (filter (\<lambda>r. Result r = ''PASS'') (data df_results)));
                total_count = int (length (data df_results));
                w = st (MetricCard ''Total Checks'' total_count) w;
                w = st (MetricCard ''Passed'' pass_count) w;
                w = st (MetricCard ''Failed'' (total_count - pass_count)) w;
                w = st (Subheader ''Detailed Analysis'') w;
                w = st (Dataframe df_results (map (\<lambda>r. highlight_status (Result r)) (data df_results))) w;
                csv = encode_utf8 L (to_csv L df_results);
                w = st (DownloadButton ''Download Report CSV'' csv ''audio_analysis_report.csv''
                          ''text/csv'' ''download-csv'') w
            in (None, w)))"

subsection \<open>The analysis: try, except, finally (lines 71 to 178)\<close>

text \<open>
  The body of \<^verbatim>\<open>try\<close>. Its first component is the exception that leaves the body, if
  any. The outcome of the four imports is an input: the runners, or the exception the
  import raised. An \<^verbatim>\<open>ImportError\<close> is reported and \<^verbatim>\<open>st.stop()\<close> raises \<open>StopException\<close>.
\<close>

definition try_body ::
  "lib \<Rightarrow> thresholds \<Rightarrow> exn + 'e runners \<Rightarrow> path \<Rightarrow> 'e world \<Rightarrow> exn option \<times> 'e world" where
  "try_body L T imports tmp_path w =
     (let w = st (Spinner ''Initializing metrics... (This may take a minute on first run to download models)'') w
      in case imports of
           Inl (ImportError m) \<Rightarrow>
             (Some StopException,
              st (Error (''Failed to load metric modules: '' @ str_exc L (ImportError m))) w)
         | Inl e \<Rightarrow> (Some e, w)
         | Inr rs \<Rightarrow>
             (case collect_results rs tmp_path w of
                (Inl e, w) \<Rightarrow> (Some e, w)
              | (Inr results, w) \<Rightarrow>
                  (let w = st (StatusText ''Analysis Complete!'') w
                   in case process_results L T [] results of
                        Inl e \<Rightarrow> (Some e, w)
                      | Inr final_rows \<Rightarrow> show_report L final_rows w)))"

text \<open>\<^verbatim>\<open>except Exception as e\<close>: the message and the trace are shown.\<close>

definition except_handler :: "lib \<Rightarrow> exn \<Rightarrow> 'e world \<Rightarrow> 'e world" where
  "except_handler L e w =
     (let w = st (Error (''An error occurred during analysis: '' @ str_exc L e)) w;
          w = st (Code (format_exc L e)) w
      in w)"

text \<open>\<^verbatim>\<open>finally: if os.path.exists(tmp_path): os.remove(tmp_path)\<close>\<close>

definition cleanup :: "path \<Rightarrow> 'e world \<Rightarrow> 'e world" where
  "cleanup tmp_path w =
     (if tmp_path \<in> dom (files w) then w\<lparr>files := (files w)(tmp_path := None)\<rparr> else w)"

text \<open>
  The branch of the pressed button. The result names the exception that leaves the
  statement uncaught, if any.
\<close>

definition run_analysis ::
  "lib \<Rightarrow> thresholds \<Rightarrow> exn + 'e runners \<Rightarrow> path \<Rightarrow> 'e world \<Rightarrow> exn option \<times> 'e world" where
  "run_analysis L T imports tmp_path w =
     (let w = st (Progress 0) w;
          w = st Empty w;
          (raised, w) = try_body L T imports tmp_path w;
          (raised, w) = (case raised of
                           None \<Rightarrow> (None, w)
                         | Some e \<Rightarrow> if is_Exception e then (None, except_handler L e w)
                                     else (Some e, w));
          w = cleanup tmp_path w
      in (raised, w))"

subsection \<open>One execution of the script (lines 60 to 178)\<close>

text \<open>
  \<^verbatim>\<open>NamedTemporaryFile(delete=False, suffix=...)\<close> creates a file whose name is a fresh
  name chosen by the operating system, here the input \<open>tmp_name\<close>, followed by the
  suffix; \<^verbatim>\<open>delete=False\<close> keeps the file when the \<^verbatim>\<open>with\<close> block closes it.
  \<open>pressed\<close> is the value of \<^verbatim>\<open>st.button\<close> in this execution.
\<close>

definition tmp_path_of :: "lib \<Rightarrow> uploaded_file \<Rightarrow> path \<Rightarrow> path" where
  "tmp_path_of L up tmp_name = tmp_name @ splitext_ext L (name up)"

definition script ::
  "lib \<Rightarrow> thresholds \<Rightarrow> uploaded_file option \<Rightarrow> bool \<Rightarrow> path \<Rightarrow> exn + 'e runners \<Rightarrow>
   (path \<rightharpoonup> bytes) \<Rightarrow> 'e \<Rightarrow> exn option \<times> 'e world" where
  "script L T uploaded pressed tmp_name imports fs x =
     (let w = \<lparr>files = fs, page = [], ext = x\<rparr>;
          w = st (FileUploader ''Choose an audio file'' [''wav'', ''mp3'', ''flac'']) w
      in case uploaded of
           None \<Rightarrow> (None, w)
         | Some up \<Rightarrow>
             (let tmp_path = tmp_path_of L up tmp_name;
                  w = w\<lparr>files := (files w)(tmp_path \<mapsto> getvalue up)\<rparr>;
                  w = st (Audio (getvalue up) ''audio/wav'') w;
                  w = st (Button ''Run Analysis'') w
              in if pressed then run_analysis L T imports tmp_path w else (None, w)))"

subsection \<open>Reading the page\<close>

definition tables :: "st_call list \<Rightarrow> dataframe list" where
  "tables pg = concat (map (\<lambda>c. case c of Dataframe df s \<Rightarrow> [df] | _ \<Rightarrow> []) pg)"

definition downloads :: "st_call list \<Rightarrow> (bytes \<times> string) list" where
  "downloads pg = concat (map (\<lambda>c. case c of DownloadButton l d f m k \<Rightarrow> [(d, f)] | _ \<Rightarrow> []) pg)"

definition metric_cards :: "st_call list \<Rightarrow> (string \<times> int) list" where
  "metric_cards pg = concat (map (\<lambda>c. case c of MetricCard l v \<Rightarrow> [(l, v)] | _ \<Rightarrow> []) pg)"

definition errors :: "st_call list \<Rightarrow> string list" where
  "errors pg = concat (map (\<lambda>c. case c of Error m \<Rightarrow> [m] | _ \<Rightarrow> []) pg)"

definition codes :: "st_call list \<Rightarrow> string list" where
  "codes pg = concat (map (\<lambda>c. case c of Code m \<Rightarrow> [m] | _ \<Rightarrow> []) pg)"

definition status_texts :: "st_call list \<Rightarrow> string list" where
  "status_texts pg = concat (map (\<lambda>c. case c of StatusText m \<Rightarrow> [m] | _ \<Rightarrow> []) pg)"

subsection \<open>Notions used to state the properties\<close>

text \<open>
  The rule of the specification for the status of a row: PASS if and only if a score is
  present and it is at least the threshold of the metric; an absent score or an absent
  threshold gives FAIL.
\<close>

definition status_rule :: "score \<Rightarrow> pynum option \<Rightarrow> string" where
  "status_rule score threshold =
     (case (score, threshold) of
        (Some s, Some t) \<Rightarrow> if num_ge s t then ''PASS'' else ''FAIL''
      | _ \<Rightarrow> ''FAIL'')"

text \<open>
  The thresholds cover a list of results when every result that has a score has a
  threshold: the comparison of line 124 is then never one of a number with \<^verbatim>\<open>None\<close>.
\<close>

definition thresholds_cover :: "thresholds \<Rightarrow> (string \<times> score) list \<Rightarrow> bool" where
  "thresholds_cover T results =
     list_all (\<lambda>(metric_name, score). score = None \<or> T metric_name \<noteq> None) results"

text \<open>The row that the loop of lines 119 to 132 builds for one result.\<close>

definition row_of :: "lib \<Rightarrow> thresholds \<Rightarrow> string \<times> score \<Rightarrow> row" where
  "row_of L T item =
     (case item of (metric_name, score) \<Rightarrow>
        \<lparr>Metric = metric_name,
         Description = description_of metric_name,
         Your_Threshold = T metric_name,
         Score = map_option (round3 L) score,
         Result = status_rule score (T metric_name)\<rparr>)"

text \<open>The parts of the page, in the order in which the script renders them.\<close>

definition upload_page :: "uploaded_file \<Rightarrow> st_call list" where
  "upload_page up =
     [FileUploader ''Choose an audio file'' [''wav'', ''mp3'', ''flac''],
      Audio (getvalue up) ''audio/wav'',
      Button ''Run Analysis'']"

definition start_page :: "st_call list" where
  "start_page =
     [Progress 0, Empty,
      Spinner ''Initializing metrics... (This may take a minute on first run to download models)'']"

definition runners_page :: "st_call list" where
  "runners_page =
     [StatusText ''Running SRMR...'', Progress 25,
      StatusText ''Running SigMOS...'', Progress 50,
      StatusText ''Running VQScore...'', Progress 75,
      StatusText ''Running WVMOS...'', Progress 100]"

definition report_page :: "lib \<Rightarrow> row list \<Rightarrow> st_call list" where
  "report_page L final_rows =
     [Divider, Columns 3,
      MetricCard ''Total Checks'' (int (length (data (pd_DataFrame L final_rows)))),
      MetricCard ''Passed''
        (int (length (filter (\<lambda>r. Result r = ''PASS'') (data (pd_DataFrame L final_rows))))),
      MetricCard ''Failed''
        (int (length (data (pd_DataFrame L final_rows))) -
         int (length (filter (\<lambda>r. Result r = ''PASS'') (data (pd_DataFrame L final_rows))))),
      Subheader ''Detailed Analysis'',
      Dataframe (pd_DataFrame L final_rows)
        (map (\<lambda>r. highlight_status (Result r)) (data (pd_DataFrame L final_rows))),
      DownloadButton ''Download Report CSV'' (encode_utf8 L (to_csv L (pd_DataFrame L final_rows)))
        ''audio_analysis_report.csv'' ''text/csv'' ''download-csv'']"

definition error_page :: "lib \<Rightarrow> exn \<Rightarrow> st_call list" where
  "error_page L e =
     [Error (''An error occurred during analysis: '' @ str_exc L e), Code (format_exc L e)]"

subsection \<open>A concrete run\<close>

text \<open>
  Inputs on which the model is run: the thresholds and scores of the example of the
  specification (section 8), runners that return these scores and record their calls
  in the state of the libraries, and simple stand-ins for the library functions:
  rounding to three decimals on exact values, half to even; text as its ASCII bytes; a
  numeric column in which \<^verbatim>\<open>None\<close> is stored as NaN as soon as the column has a number; a
  CSV text of one header line and one line for each row, fields separated by commas,
  numbers printed with one to three decimals and NaN as an empty field.
\<close>

definition round_half_even :: "rat \<Rightarrow> int" where
  "round_half_even q =
     (let f = \<lfloor>q\<rfloor>; d = q - of_int f
      in if d < 1 / 2 then f else if 1 / 2 < d then f + 1 else if even f then f else f + 1)"

fun exn_text :: "exn \<Rightarrow> string" where
  "exn_text (ImportError m) = m"
| "exn_text TypeError = ''unsupported operand''"
| "exn_text (KeyError m) = m"
| "exn_text (Exception m) = m"
| "exn_text StopException = []"

fun show_nat :: "nat \<Rightarrow> string" where
  "show_nat n =
     (if n < 10 then [''0123456789'' ! n]
      else show_nat (n div 10) @ [''0123456789'' ! (n mod 10)])"

declare show_nat.simps [simp del]

fun show_num :: "pynum \<Rightarrow> string" where
  "show_num (Finite q) =
     (let m = nat (round_half_even (\<bar>q\<bar> * 1000));
          tenths = ''0123456789'' ! (m mod 1000 div 100);
          others = [''0123456789'' ! (m mod 100 div 10), ''0123456789'' ! (m mod 10)]
      in (if q < 0 then ''-'' else []) @ show_nat (m div 1000) @ ''.'' @ [tenths] @
         rev (dropWhile (\<lambda>c. c = CHR ''0'') (rev others)))"
| "show_num PosInf = ''inf''"
| "show_num NegInf = ''-inf''"
| "show_num NaN = []"

fun show_cell :: "pynum option \<Rightarrow> string" where
  "show_cell None = []"
| "show_cell (Some v) = show_num v"

fun join_commas :: "string list \<Rightarrow> string" where
  "join_commas [] = []"
| "join_commas [x] = x"
| "join_commas (x # y # ys) = x @ '','' @ join_commas (y # ys)"

definition csv_lines :: "string list \<Rightarrow> string" where
  "csv_lines ls = concat (map (\<lambda>l. l @ [CHR 0x0A]) ls)"

definition demo_to_csv :: "dataframe \<Rightarrow> string" where
  "demo_to_csv df =
     csv_lines (join_commas (columns df) #
       map (\<lambda>r. join_commas [Metric r, Description r, show_cell (Your_Threshold r),
                               show_cell (Score r), Result r])
         (data df))"

definition demo_column_cell :: "pynum option list \<Rightarrow> pynum option \<Rightarrow> pynum option" where
  "demo_column_cell vs v =
     (case v of
        Some x \<Rightarrow> Some x
      | None \<Rightarrow> if list_all (\<lambda>u. u = None) vs then None else Some NaN)"

definition demo_lib :: lib where
  "demo_lib =
     \<lparr>round3 = (\<lambda>x. case x of
                        Finite q \<Rightarrow> Finite (of_int (round_half_even (q * 1000)) / 1000)
                      | _ \<Rightarrow> x),
      to_csv = demo_to_csv,
      encode_utf8 = map of_char,
      str_exc = exn_text,
      format_exc = (\<lambda>e. ''Traceback (most recent call last): '' @ exn_text e),
      splitext_ext = (\<lambda>s. if CHR ''.'' \<in> set s
                           then CHR ''.'' # rev (takeWhile (\<lambda>c. c \<noteq> CHR ''.'') (rev s))
                           else []),
      column_cell = demo_column_cell\<rparr>"

definition demo_upload :: uploaded_file where
  "demo_upload = \<lparr>name = ''voice.wav'', getvalue = [82, 73, 70, 70]\<rparr>"

definition demo_thresholds :: thresholds where
  "demo_thresholds =
     [''SRMR'' \<mapsto> Finite 8.0, ''SIGMOS_OVRL'' \<mapsto> Finite 3.0,
      ''VQScore'' \<mapsto> Finite 0.6, ''WVMOS'' \<mapsto> Finite 2.5]"

definition demo_runners :: "string list runners" where
  "demo_runners =
     \<lparr>calculate_srmr = (\<lambda>p x. (Inr (Some (Finite 9.5)), x @ [''srmr''])),
      calculate_sigmos =
        (\<lambda>p x. (Inr (Some [(''SIGMOS_OVRL'', Some (Finite 3.2))]), x @ [''sigmos''])),
      calculate_vqscore = (\<lambda>p x. (Inr (Some (Finite 0.55)), x @ [''vqscore''])),
      calculate_wvmos = (\<lambda>p x. (Inr (Some (Finite 3.0)), x @ [''wvmos'']))\<rparr>"

text \<open>
  Variants of the runners: one in which the SigMOS runner raises; one whose SRMR score
  has more than three decimals and whose WVMOS runner returns \<^verbatim>\<open>None\<close>; one whose SigMOS
  runner returns an empty dictionary; one whose SigMOS runner returns two sub-scores,
  SIGMOS_DISC before SIGMOS_OVRL, with thresholds that have an entry for both.
\<close>

definition failing_runners :: "string list runners" where
  "failing_runners =
     demo_runners\<lparr>calculate_sigmos :=
       (\<lambda>p x. (Inl (Exception ''model file missing''), x @ [''sigmos'']))\<rparr>"

definition rounding_runners :: "string list runners" where
  "rounding_runners =
     demo_runners\<lparr>calculate_srmr := (\<lambda>p x. (Inr (Some (Finite 9.48765)), x @ [''srmr''])),
                  calculate_wvmos := (\<lambda>p x. (Inr None, x @ [''wvmos'']))\<rparr>"

definition empty_sigmos_runners :: "string list runners" where
  "empty_sigmos_runners =
     demo_runners\<lparr>calculate_sigmos := (\<lambda>p x. (Inr (Some []), x @ [''sigmos'']))\<rparr>"

definition two_sigmos_runners :: "string list runners" where
  "two_sigmos_runners =
     demo_runners\<lparr>calculate_sigmos :=
       (\<lambda>p x. (Inr (Some [(''SIGMOS_DISC'', Some (Finite 4.1)),
                            (''SIGMOS_OVRL'', Some (Finite 2.9))]),
               x @ [''sigmos'']))\<rparr>"

definition two_sigmos_thresholds :: thresholds where
  "two_sigmos_thresholds = demo_thresholds(''SIGMOS_DISC'' \<mapsto> Finite 3.5)"

section \<open>Properties\<close>

subsection \<open>Processing the results\<close>

lemma compute_status_cover:
  "score = None \<or> threshold \<noteq> None \<Longrightarrow>
   compute_status score threshold = Inr (status_rule score threshold)"
  by (auto simp: compute_status_def status_rule_def split: option.splits)

lemma process_results_cover:
  "thresholds_cover T items \<Longrightarrow>
   process_results L T final_rows items = Inr (final_rows @ map (row_of L T) items)"
proof (induction items arbitrary: final_rows)
  case Nil
  show ?case by simp
next
  case (Cons item items)
  obtain metric_name score where item: "item = (metric_name, score)" by (cases item)
  from Cons.prems item have here: "score = None \<or> T metric_name \<noteq> None"
    and rest: "thresholds_cover T items"
    by (simp_all add: thresholds_cover_def)
  show ?case
    by (simp add: item compute_status_cover [OF here] Cons.IH [OF rest] row_of_def Let_def)
qed

lemma process_results_uncovered:
  "\<not> thresholds_cover T items \<Longrightarrow> process_results L T final_rows items = Inl TypeError"
proof (induction items arbitrary: final_rows)
  case Nil
  then show ?case by (simp add: thresholds_cover_def)
next
  case (Cons item items)
  obtain metric_name score where item: "item = (metric_name, score)" by (cases item)
  show ?case
  proof (cases "score = None \<or> T metric_name \<noteq> None")
    case True
    with Cons.prems item have "\<not> thresholds_cover T items"
      by (auto simp: thresholds_cover_def)
    then show ?thesis
      by (simp add: item compute_status_cover [OF True] Cons.IH Let_def)
  next
    case False
    then show ?thesis
      by (auto simp: item compute_status_def Let_def)
  qed
qed

lemma show_report_eq:
  "final_rows \<noteq> [] \<Longrightarrow>
   show_report L final_rows w = (None, w\<lparr>page := page w @ report_page L final_rows\<rparr>)"
  by (simp add: show_report_def pd_DataFrame_def st_def report_page_def Let_def)

text \<open>What the frame keeps of the rows it is built from.\<close>

lemma pd_DataFrame_fields:
  "map Metric (data (pd_DataFrame L final_rows)) = map Metric final_rows"
  "map Result (data (pd_DataFrame L final_rows)) = map Result final_rows"
  "map Score (data (pd_DataFrame L final_rows)) =
     map (column_cell L (map Score final_rows)) (map Score final_rows)"
  "length (data (pd_DataFrame L final_rows)) = length final_rows"
  "final_rows \<noteq> [] \<Longrightarrow> columns (pd_DataFrame L final_rows) =
     [''Metric'', ''Description'', ''Your Threshold'', ''Score'', ''Result'']"
  by (simp_all add: pd_DataFrame_def comp_def)

lemma row_of_fields:
  "Metric (row_of L T item) = fst item"
  "Score (row_of L T item) = map_option (round3 L) (snd item)"
  "Result (row_of L T item) = status_rule (snd item) (T (fst item))"
  by (simp_all add: row_of_def split_def)

subsection \<open>Reading the page\<close>

lemma tables_append: "tables (xs @ ys) = tables xs @ tables ys"
  by (simp add: tables_def)

lemma downloads_append: "downloads (xs @ ys) = downloads xs @ downloads ys"
  by (simp add: downloads_def)

lemma metric_cards_append: "metric_cards (xs @ ys) = metric_cards xs @ metric_cards ys"
  by (simp add: metric_cards_def)

lemma errors_append: "errors (xs @ ys) = errors xs @ errors ys"
  by (simp add: errors_def)

lemma codes_append: "codes (xs @ ys) = codes xs @ codes ys"
  by (simp add: codes_def)

lemma status_texts_append: "status_texts (xs @ ys) = status_texts xs @ status_texts ys"
  by (simp add: status_texts_def)

lemmas page_append = tables_append downloads_append metric_cards_append errors_append codes_append

lemma readers_status:
  "tables (StatusText m # pg) = tables pg" "downloads (StatusText m # pg) = downloads pg"
  "metric_cards (StatusText m # pg) = metric_cards pg" "errors (StatusText m # pg) = errors pg"
  "codes (StatusText m # pg) = codes pg" "status_texts (StatusText m # pg) = m # status_texts pg"
  by (simp_all add: tables_def downloads_def metric_cards_def errors_def codes_def status_texts_def)

lemma upload_page_quiet:
  "tables (upload_page up) = []" "downloads (upload_page up) = []"
  "metric_cards (upload_page up) = []" "errors (upload_page up) = []" "codes (upload_page up) = []"
  by (simp_all add: upload_page_def tables_def downloads_def metric_cards_def errors_def codes_def)

lemma start_page_quiet:
  "tables start_page = []" "downloads start_page = []"
  "metric_cards start_page = []" "errors start_page = []" "codes start_page = []"
  by (simp_all add: start_page_def tables_def downloads_def metric_cards_def errors_def codes_def)

lemma runners_page_quiet:
  "tables runners_page = []" "downloads runners_page = []"
  "metric_cards runners_page = []" "errors runners_page = []" "codes runners_page = []"
  by (simp_all add: runners_page_def tables_def downloads_def metric_cards_def errors_def codes_def)

lemmas page_quiet = upload_page_quiet start_page_quiet runners_page_quiet

lemma report_page_shows:
  "tables (report_page L final_rows) = [pd_DataFrame L final_rows]"
  "downloads (report_page L final_rows) =
     [(encode_utf8 L (to_csv L (pd_DataFrame L final_rows)), ''audio_analysis_report.csv'')]"
  "metric_cards (report_page L final_rows) =
     [(''Total Checks'', int (length (data (pd_DataFrame L final_rows)))),
      (''Passed'',
       int (length (filter (\<lambda>r. Result r = ''PASS'') (data (pd_DataFrame L final_rows))))),
      (''Failed'',
       int (length (data (pd_DataFrame L final_rows))) -
       int (length (filter (\<lambda>r. Result r = ''PASS'') (data (pd_DataFrame L final_rows)))))]"
  "errors (report_page L final_rows) = []" "codes (report_page L final_rows) = []"
  by (simp_all add: report_page_def tables_def downloads_def metric_cards_def errors_def codes_def)

lemma error_page_shows:
  "tables (error_page L e) = []" "downloads (error_page L e) = []"
  "metric_cards (error_page L e) = []"
  "errors (error_page L e) = [''An error occurred during analysis: '' @ str_exc L e]"
  "codes (error_page L e) = [format_exc L e]"
  by (simp_all add: error_page_def tables_def downloads_def metric_cards_def errors_def codes_def)

lemma status_texts_pages:
  "status_texts (upload_page up) = []" "status_texts start_page = []"
  "status_texts runners_page =
     [''Running SRMR...'', ''Running SigMOS...'', ''Running VQScore...'', ''Running WVMOS...'']"
  "status_texts (report_page L final_rows) = []" "status_texts (error_page L e) = []"
  by (simp_all add: status_texts_def upload_page_def start_page_def runners_page_def
      report_page_def error_page_def)

subsection \<open>The temporary file\<close>

lemma cleanup_removes: "files (cleanup p w) p = None"
  by (simp add: cleanup_def domIff)

lemma cleanup_page: "page (cleanup p w) = page w"
  by (simp add: cleanup_def)

lemma cleanup_ext: "ext (cleanup p w) = ext w"
  by (simp add: cleanup_def)

lemma run_analysis_cleans_up:
  "files (snd (run_analysis L T imports p w)) p = None"
  by (simp add: run_analysis_def Let_def cleanup_removes split: prod.splits)

lemma script_pressed:
  "script L T (Some up) True tmp_name imports fs x =
   run_analysis L T imports (tmp_path_of L up tmp_name)
     \<lparr>files = fs(tmp_path_of L up tmp_name \<mapsto> getvalue up), page = upload_page up, ext = x\<rparr>"
  by (simp add: script_def st_def upload_page_def Let_def)

subsection \<open>A run in which the four runners return\<close>

lemma collect_results_returns:
  assumes "calculate_srmr rs p (ext w) = (Inr s1, x1)"
    and "calculate_sigmos rs p x1 = (Inr sg, x2)"
    and "calculate_vqscore rs p x2 = (Inr s3, x3)"
    and "calculate_wvmos rs p x3 = (Inr s4, x4)"
  shows "collect_results rs p w =
    (Inr ((''SRMR'', s1) # sigmos_items sg @ [(''VQScore'', s3), (''WVMOS'', s4)]),
     w\<lparr>page := page w @ runners_page, ext := x4\<rparr>)"
  using assms by (simp add: collect_results_def run_step_def st_def runners_page_def)

text \<open>
  The whole execution when the button is pressed, the imports succeed and the four
  runners return: the report if the thresholds cover the results, the error of the
  comparison otherwise; the temporary file is gone in both cases.
\<close>

lemma script_returns:
  assumes "calculate_srmr rs (tmp_path_of L up tmp_name) x0 = (Inr s1, x1)"
    and "calculate_sigmos rs (tmp_path_of L up tmp_name) x1 = (Inr sg, x2)"
    and "calculate_vqscore rs (tmp_path_of L up tmp_name) x2 = (Inr s3, x3)"
    and "calculate_wvmos rs (tmp_path_of L up tmp_name) x3 = (Inr s4, x4)"
  shows "script L T (Some up) True tmp_name (Inr rs) fs x0 =
    (None,
     \<lparr>files = fs(tmp_path_of L up tmp_name := None),
      page = upload_page up @ start_page @ runners_page @ [StatusText ''Analysis Complete!''] @
        (if thresholds_cover T
              ((''SRMR'', s1) # sigmos_items sg @ [(''VQScore'', s3), (''WVMOS'', s4)])
         then report_page L (map (row_of L T)
              ((''SRMR'', s1) # sigmos_items sg @ [(''VQScore'', s3), (''WVMOS'', s4)]))
         else error_page L TypeError),
      ext = x4\<rparr>)"
proof -
  define p where "p = tmp_path_of L up tmp_name"
  define results where
    "results = (''SRMR'', s1) # sigmos_items sg @ [(''VQScore'', s3), (''WVMOS'', s4)]"
  define w0 :: "'a world" where
    "w0 = \<lparr>files = fs(p \<mapsto> getvalue up), page = upload_page up @ start_page, ext = x0\<rparr>"
  define w1 :: "'a world" where
    "w1 = \<lparr>files = fs(p \<mapsto> getvalue up),
            page = upload_page up @ start_page @ runners_page @ [StatusText ''Analysis Complete!''],
            ext = x4\<rparr>"
  have collect:
    "collect_results rs p w0 = (Inr results, w0\<lparr>page := page w0 @ runners_page, ext := x4\<rparr>)"
    unfolding results_def
    using collect_results_returns [of rs p w0 s1 x1 sg x2 s3 x3 s4 x4] assms
    by (simp add: p_def w0_def)
  have body: "try_body L T (Inr rs) p
      \<lparr>files = fs(p \<mapsto> getvalue up), page = upload_page up @ [Progress 0, Empty], ext = x0\<rparr> =
      (case process_results L T [] results of
         Inl e \<Rightarrow> (Some e, w1)
       | Inr final_rows \<Rightarrow> show_report L final_rows w1)"
    using collect
    by (simp add: try_body_def st_def start_page_def w0_def w1_def Let_def split: sum.split)
  have start: "script L T (Some up) True tmp_name (Inr rs) fs x0 =
      run_analysis L T (Inr rs) p
        \<lparr>files = fs(p \<mapsto> getvalue up), page = upload_page up, ext = x0\<rparr>"
    by (simp add: script_def st_def upload_page_def p_def Let_def)
  show ?thesis
  proof (cases "thresholds_cover T results")
    case True
    have rows: "process_results L T [] results = Inr (map (row_of L T) results)"
      using process_results_cover [OF True, of L "[]"] by simp
    have "results \<noteq> []" by (simp add: results_def)
    then have "map (row_of L T) results \<noteq> []" by simp
    then show ?thesis
      using True body unfolding start results_def [symmetric] p_def [symmetric]
      by (simp add: run_analysis_def st_def rows show_report_eq cleanup_def w1_def Let_def)
  next
    case False
    have rows: "process_results L T [] results = Inl TypeError"
      by (rule process_results_uncovered [OF False])
    show ?thesis
      using False body unfolding start results_def [symmetric] p_def [symmetric]
      by (simp add: run_analysis_def st_def rows cleanup_def w1_def
          except_handler_def error_page_def Let_def)
  qed
qed

lemma script_returns_page:
  assumes "calculate_srmr rs (tmp_path_of L up tmp_name) x0 = (Inr s1, x1)"
    and "calculate_sigmos rs (tmp_path_of L up tmp_name) x1 = (Inr sg, x2)"
    and "calculate_vqscore rs (tmp_path_of L up tmp_name) x2 = (Inr s3, x3)"
    and "calculate_wvmos rs (tmp_path_of L up tmp_name) x3 = (Inr s4, x4)"
    and "results = (''SRMR'', s1) # sigmos_items sg @ [(''VQScore'', s3), (''WVMOS'', s4)]"
    and "pg = page (snd (script L T (Some up) True tmp_name (Inr rs) fs x0))"
  shows "tables pg =
      (if thresholds_cover T results then [pd_DataFrame L (map (row_of L T) results)] else [])"
    and "downloads pg =
      (if thresholds_cover T results
       then [(encode_utf8 L (to_csv L (pd_DataFrame L (map (row_of L T) results))),
              ''audio_analysis_report.csv'')]
       else [])"
    and "metric_cards pg =
      (if thresholds_cover T results
       then [(''Total Checks'', int (length (data (pd_DataFrame L (map (row_of L T) results))))),
             (''Passed'',
              int (length (filter (\<lambda>r. Result r = ''PASS'')
                (data (pd_DataFrame L (map (row_of L T) results)))))),
             (''Failed'',
              int (length (data (pd_DataFrame L (map (row_of L T) results)))) -
              int (length (filter (\<lambda>r. Result r = ''PASS'')
                (data (pd_DataFrame L (map (row_of L T) results))))))]
       else [])"
    and "errors pg =
      (if thresholds_cover T results then []
       else [''An error occurred during analysis: '' @ str_exc L TypeError])"
    and "codes pg = (if thresholds_cover T results then [] else [format_exc L TypeError])"
    and "status_texts pg =
      [''Running SRMR...'', ''Running SigMOS...'', ''Running VQScore...'', ''Running WVMOS...'',
       ''Analysis Complete!'']"
  unfolding assms(6) script_returns [OF assms(1-4)] assms(5) [symmetric]
  by (simp_all add: page_append page_quiet readers_status report_page_shows error_page_shows
      status_texts_append status_texts_pages)

text \<open>
  When a report is shown, the status of every row follows the rule of the specification.
\<close>

lemma report_status_rule:
  assumes "calculate_srmr rs (tmp_path_of L up tmp_name) x0 = (Inr s1, x1)"
    and "calculate_sigmos rs (tmp_path_of L up tmp_name) x1 = (Inr sg, x2)"
    and "calculate_vqscore rs (tmp_path_of L up tmp_name) x2 = (Inr s3, x3)"
    and "calculate_wvmos rs (tmp_path_of L up tmp_name) x3 = (Inr s4, x4)"
    and "thresholds_cover T ((''SRMR'', s1) # sigmos_items sg @ [(''VQScore'', s3), (''WVMOS'', s4)])"
  shows "map (map Result \<circ> data)
      (tables (page (snd (script L T (Some up) True tmp_name (Inr rs) fs x0)))) =
      [map (\<lambda>(metric_name, score). status_rule score (T metric_name))
         ((''SRMR'', s1) # sigmos_items sg @ [(''VQScore'', s3), (''WVMOS'', s4)])]"
  using assms(5)
  by (simp add: script_returns_page(1) [OF assms(1-4) refl refl] pd_DataFrame_fields
      row_of_fields split_def comp_def)

subsection \<open>A run in which a runner raises\<close>

lemma collect_results_raises:
  assumes "calculate_srmr rs p (ext w) = (Inl e, xf) \<or>
       calculate_srmr rs p (ext w) = (Inr s1, x1) \<and>
       (calculate_sigmos rs p x1 = (Inl e, xf) \<or>
        calculate_sigmos rs p x1 = (Inr sg, x2) \<and>
        (calculate_vqscore rs p x2 = (Inl e, xf) \<or>
         calculate_vqscore rs p x2 = (Inr s3, x3) \<and>
         calculate_wvmos rs p x3 = (Inl e, xf)))"
  shows "\<exists>pg. collect_results rs p w = (Inl e, w\<lparr>page := page w @ pg, ext := xf\<rparr>) \<and>
    tables pg = [] \<and> downloads pg = [] \<and> metric_cards pg = [] \<and> errors pg = [] \<and> codes pg = []"
proof -
  note readers = tables_def downloads_def metric_cards_def errors_def codes_def
  from assms consider
      (srmr) "calculate_srmr rs p (ext w) = (Inl e, xf)"
    | (sigmos) "calculate_srmr rs p (ext w) = (Inr s1, x1)" "calculate_sigmos rs p x1 = (Inl e, xf)"
    | (vqscore) "calculate_srmr rs p (ext w) = (Inr s1, x1)" "calculate_sigmos rs p x1 = (Inr sg, x2)"
        "calculate_vqscore rs p x2 = (Inl e, xf)"
    | (wvmos) "calculate_srmr rs p (ext w) = (Inr s1, x1)" "calculate_sigmos rs p x1 = (Inr sg, x2)"
        "calculate_vqscore rs p x2 = (Inr s3, x3)" "calculate_wvmos rs p x3 = (Inl e, xf)"
    by blast
  then show ?thesis
  proof cases
    case srmr
    then have "collect_results rs p w =
        (Inl e, w\<lparr>page := page w @ take 1 runners_page, ext := xf\<rparr>)"
      by (simp add: collect_results_def run_step_def st_def runners_page_def)
    moreover have "tables (take 1 runners_page) = [] \<and> downloads (take 1 runners_page) = [] \<and>
        metric_cards (take 1 runners_page) = [] \<and> errors (take 1 runners_page) = [] \<and>
        codes (take 1 runners_page) = []"
      by (simp add: runners_page_def readers)
    ultimately show ?thesis by blast
  next
    case sigmos
    then have "collect_results rs p w =
        (Inl e, w\<lparr>page := page w @ take 3 runners_page, ext := xf\<rparr>)"
      by (simp add: collect_results_def run_step_def st_def runners_page_def)
    moreover have "tables (take 3 runners_page) = [] \<and> downloads (take 3 runners_page) = [] \<and>
        metric_cards (take 3 runners_page) = [] \<and> errors (take 3 runners_page) = [] \<and>
        codes (take 3 runners_page) = []"
      by (simp add: runners_page_def readers)
    ultimately show ?thesis by blast
  next
    case vqscore
    then have "collect_results rs p w =
        (Inl e, w\<lparr>page := page w @ take 5 runners_page, ext := xf\<rparr>)"
      by (simp add: collect_results_def run_step_def st_def runners_page_def)
    moreover have "tables (take 5 runners_page) = [] \<and> downloads (take 5 runners_page) = [] \<and>
        metric_cards (take 5 runners_page) = [] \<and> errors (take 5 runners_page) = [] \<and>
        codes (take 5 runners_page) = []"
      by (simp add: runners_page_def readers)
    ultimately show ?thesis by blast
  next
    case wvmos
    then have "collect_results rs p w =
        (Inl e, w\<lparr>page := page w @ take 7 runners_page, ext := xf\<rparr>)"
      by (simp add: collect_results_def run_step_def st_def runners_page_def)
    moreover have "tables (take 7 runners_page) = [] \<and> downloads (take 7 runners_page) = [] \<and>
        metric_cards (take 7 runners_page) = [] \<and> errors (take 7 runners_page) = [] \<and>
        codes (take 7 runners_page) = []"
      by (simp add: runners_page_def readers)
    ultimately show ?thesis by blast
  qed
qed

subsection \<open>The concrete run\<close>

lemma floor_rat_numeral:
  "\<lfloor>numeral a / numeral b :: rat\<rfloor> = numeral a div numeral b"
  using floor_divide_of_int_eq [of "numeral a" "numeral b", where ?'a = rat] by simp

lemma demo_tmp_path: "tmp_path_of demo_lib demo_upload ''/tmp/tmpk3x9'' = ''/tmp/tmpk3x9.wav''"
  by (simp add: tmp_path_of_def demo_lib_def demo_upload_def)

lemma demo_lib_simps:
  "str_exc demo_lib = exn_text"
  "format_exc demo_lib = (\<lambda>e. ''Traceback (most recent call last): '' @ exn_text e)"
  "encode_utf8 demo_lib = map of_char"
  "to_csv demo_lib = demo_to_csv"
  "column_cell demo_lib = demo_column_cell"
  by (simp_all add: demo_lib_def)

lemma show_nat_numeral:
  "show_nat 0 = ''0''"
  "show_nat (numeral k) =
     (if (numeral k :: nat) < 10 then [''0123456789'' ! numeral k]
      else show_nat (numeral k div 10) @ [''0123456789'' ! (numeral k mod 10)])"
  by (simp_all add: show_nat.simps [of 0] show_nat.simps [of "numeral k"])

lemma demo_round3:
  "round3 demo_lib (Finite q) = Finite (of_int (round_half_even (q * 1000)) / 1000)"
  by (simp add: demo_lib_def)

lemma demo_cover:
  "thresholds_cover demo_thresholds
     [(''SRMR'', Some a), (''SIGMOS_OVRL'', Some b), (''VQScore'', Some c), (''WVMOS'', Some d)]"
  "thresholds_cover demo_thresholds [(''SRMR'', Some a), (''VQScore'', Some c), (''WVMOS'', Some d)]"
  "thresholds_cover demo_thresholds
     [(''SRMR'', Some a), (''SIGMOS_OVRL'', Some b), (''VQScore'', Some c), (''WVMOS'', None)]"
  "thresholds_cover two_sigmos_thresholds
     [(''SRMR'', Some a), (''SIGMOS_DISC'', Some b), (''SIGMOS_OVRL'', Some c),
      (''VQScore'', Some d), (''WVMOS'', Some e)]"
  by (simp_all add: thresholds_cover_def demo_thresholds_def two_sigmos_thresholds_def)

lemma demo_runs:
  "calculate_srmr demo_runners p x = (Inr (Some (Finite 9.5)), x @ [''srmr''])"
  "calculate_sigmos demo_runners p x =
     (Inr (Some [(''SIGMOS_OVRL'', Some (Finite 3.2))]), x @ [''sigmos''])"
  "calculate_vqscore demo_runners p x = (Inr (Some (Finite 0.55)), x @ [''vqscore''])"
  "calculate_wvmos demo_runners p x = (Inr (Some (Finite 3.0)), x @ [''wvmos''])"
  by (simp_all add: demo_runners_def)

lemma rounding_runs:
  "calculate_srmr rounding_runners p x = (Inr (Some (Finite 9.48765)), x @ [''srmr''])"
  "calculate_sigmos rounding_runners p x =
     (Inr (Some [(''SIGMOS_OVRL'', Some (Finite 3.2))]), x @ [''sigmos''])"
  "calculate_vqscore rounding_runners p x = (Inr (Some (Finite 0.55)), x @ [''vqscore''])"
  "calculate_wvmos rounding_runners p x = (Inr None, x @ [''wvmos''])"
  by (simp_all add: rounding_runners_def demo_runners_def)

lemma two_sigmos_runs:
  "calculate_srmr two_sigmos_runners p x = (Inr (Some (Finite 9.5)), x @ [''srmr''])"
  "calculate_sigmos two_sigmos_runners p x =
     (Inr (Some [(''SIGMOS_DISC'', Some (Finite 4.1)), (''SIGMOS_OVRL'', Some (Finite 2.9))]),
      x @ [''sigmos''])"
  "calculate_vqscore two_sigmos_runners p x = (Inr (Some (Finite 0.55)), x @ [''vqscore''])"
  "calculate_wvmos two_sigmos_runners p x = (Inr (Some (Finite 3.0)), x @ [''wvmos''])"
  by (simp_all add: two_sigmos_runners_def demo_runners_def)

lemma sigmos_items_cases:
  "sigmos_items sg = (case sg of None \<Rightarrow> [] | Some items \<Rightarrow> items)"
  by (cases sg) simp_all

lemma empty_sigmos_runs:
  "calculate_srmr empty_sigmos_runners p x = (Inr (Some (Finite 9.5)), x @ [''srmr''])"
  "calculate_sigmos empty_sigmos_runners p x = (Inr (Some []), x @ [''sigmos''])"
  "calculate_vqscore empty_sigmos_runners p x = (Inr (Some (Finite 0.55)), x @ [''vqscore''])"
  "calculate_wvmos empty_sigmos_runners p x = (Inr (Some (Finite 3.0)), x @ [''wvmos''])"
  by (simp_all add: empty_sigmos_runners_def demo_runners_def)

text \<open>
  The scores and thresholds of the example are written as decimals. The floats nearest
  to 3.2, 0.55 and 0.6 are not these decimals; their exact values compare in the same
  way (the other numbers of the example are floats exactly).
\<close>

lemma example_floats:
  "num_ge (Finite (3602879701896397 / 1125899906842624)) (Finite 3) \<and>
   \<not> num_ge (Finite (2476979795053773 / 4503599627370496))
          (Finite (5404319552844595 / 9007199254740992))"
  by simp

section \<open>The claims\<close>

text \<open>
  C1. The specification gives every row the status PASS if and only if a score is present
  and is at least the threshold, and FAIL when the threshold or the score is absent, a
  missing threshold being treated as a failure without an error. The script does not do
  this for a metric that has a score and no threshold: with the thresholds of the example
  but none for SIGMOS_OVRL, and the SigMOS runner returning 3.2 for SIGMOS_OVRL, the rule
  gives FAIL, the comparison of line 124 raises \<open>TypeError\<close>, no table is shown, and the
  error and its trace are displayed.
\<close>

theorem missing_threshold_is_surfaced:
  "status_rule (Some (Finite 3.2)) None = ''FAIL'' \<and>
   compute_status (Some (Finite 3.2)) None = Inl TypeError \<and>
   tables (page (snd (script L (demo_thresholds(''SIGMOS_OVRL'' := None)) (Some up) True tmp_name
      (Inr demo_runners) fs []))) = [] \<and>
   errors (page (snd (script L (demo_thresholds(''SIGMOS_OVRL'' := None)) (Some up) True tmp_name
      (Inr demo_runners) fs []))) = [''An error occurred during analysis: '' @ str_exc L TypeError] \<and>
   codes (page (snd (script L (demo_thresholds(''SIGMOS_OVRL'' := None)) (Some up) True tmp_name
      (Inr demo_runners) fs []))) = [format_exc L TypeError]"
  by (simp add: script_def run_analysis_def try_body_def collect_results_def run_step_def
      st_def compute_status_def status_rule_def cleanup_def except_handler_def
      demo_thresholds_def demo_runners_def tables_def errors_def codes_def Let_def)

text \<open>
  C2. The specification says that a file uploaded and not followed by a press of the
  button leaves no report and no temporary file. In the script the temporary file is
  written before the button is read, and the only removal is in the \<^verbatim>\<open>finally\<close> of the
  pressed branch: in an execution with an uploaded file and the button not pressed, no
  report is shown, and the temporary file is on disk with the uploaded content when the
  script ends.
\<close>

theorem unpressed_upload_keeps_tmp_file:
  "script L T (Some up) False tmp_name imports fs x =
     (None, \<lparr>files = fs(tmp_path_of L up tmp_name \<mapsto> getvalue up), page = upload_page up, ext = x\<rparr>) \<and>
   files (snd (script L T (Some up) False tmp_name imports fs x)) (tmp_path_of L up tmp_name) =
     Some (getvalue up)"
  by (simp add: script_def st_def upload_page_def Let_def)

text \<open>
  C3. Once the button is pressed, the temporary file does not exist when the script
  ends, whatever the imports and the runners do: whether the four runners return and
  the report is shown, or an exception of any kind leaves the body of \<^verbatim>\<open>try\<close>.
\<close>

theorem tmp_file_removed_after_run:
  "files (snd (script L T (Some up) True tmp_name imports fs x)) (tmp_path_of L up tmp_name) = None"
  by (simp add: script_pressed run_analysis_cleans_up)

theorem tmp_file_removed_after_run_witness:
  "files (snd (script demo_lib demo_thresholds (Some demo_upload) True ''/tmp/tmpk3x9''
      (Inr demo_runners) Map.empty [])) ''/tmp/tmpk3x9.wav'' = None \<and>
   files (snd (script demo_lib demo_thresholds (Some demo_upload) True ''/tmp/tmpk3x9''
      (Inr failing_runners) Map.empty [])) ''/tmp/tmpk3x9.wav'' = None \<and>
   files (snd (script demo_lib demo_thresholds (Some demo_upload) True ''/tmp/tmpk3x9''
      (Inl (ImportError ''No module named metrics'')) Map.empty ([] :: string list)))
      ''/tmp/tmpk3x9.wav'' = None"
  using tmp_file_removed_after_run [of demo_lib demo_thresholds demo_upload "''/tmp/tmpk3x9''"
      "Inr demo_runners" Map.empty "[]"]
    tmp_file_removed_after_run [of demo_lib demo_thresholds demo_upload "''/tmp/tmpk3x9''"
      "Inr failing_runners" Map.empty "[]"]
    tmp_file_removed_after_run [of demo_lib demo_thresholds demo_upload "''/tmp/tmpk3x9''"
      "Inl (ImportError ''No module named metrics'')" Map.empty "[] :: string list"]
  by (simp add: demo_tmp_path)

text \<open>
  C4. If one of the four runners raises an exception (of the family of \<^verbatim>\<open>Exception\<close>), the
  runners before it having returned, the analysis is aborted: the state of the libraries
  is the one the raising runner left (the remaining runners are not called), no table,
  no summary card and no download button are on the page, exactly one error message and
  the trace of that exception are shown, the script ends normally and the temporary file
  is removed.
\<close>

theorem runner_exception_aborts:
  assumes exc: "is_Exception e"
    and raises:
      "calculate_srmr rs (tmp_path_of L up tmp_name) x0 = (Inl e, xf) \<or>
       calculate_srmr rs (tmp_path_of L up tmp_name) x0 = (Inr s1, x1) \<and>
       (calculate_sigmos rs (tmp_path_of L up tmp_name) x1 = (Inl e, xf) \<or>
        calculate_sigmos rs (tmp_path_of L up tmp_name) x1 = (Inr sg, x2) \<and>
        (calculate_vqscore rs (tmp_path_of L up tmp_name) x2 = (Inl e, xf) \<or>
         calculate_vqscore rs (tmp_path_of L up tmp_name) x2 = (Inr s3, x3) \<and>
         calculate_wvmos rs (tmp_path_of L up tmp_name) x3 = (Inl e, xf)))"
  shows "fst (script L T (Some up) True tmp_name (Inr rs) fs x0) = None \<and>
    errors (page (snd (script L T (Some up) True tmp_name (Inr rs) fs x0))) =
      [''An error occurred during analysis: '' @ str_exc L e] \<and>
    codes (page (snd (script L T (Some up) True tmp_name (Inr rs) fs x0))) = [format_exc L e] \<and>
    tables (page (snd (script L T (Some up) True tmp_name (Inr rs) fs x0))) = [] \<and>
    metric_cards (page (snd (script L T (Some up) True tmp_name (Inr rs) fs x0))) = [] \<and>
    downloads (page (snd (script L T (Some up) True tmp_name (Inr rs) fs x0))) = [] \<and>
    ext (snd (script L T (Some up) True tmp_name (Inr rs) fs x0)) = xf \<and>
    files (snd (script L T (Some up) True tmp_name (Inr rs) fs x0)) (tmp_path_of L up tmp_name) = None"
proof -
  define p where "p = tmp_path_of L up tmp_name"
  define w0 :: "'a world" where
    "w0 = \<lparr>files = fs(p \<mapsto> getvalue up), page = upload_page up @ start_page, ext = x0\<rparr>"
  have "ext w0 = x0" by (simp add: w0_def)
  with raises obtain pg where
    collect: "collect_results rs p w0 = (Inl e, w0\<lparr>page := page w0 @ pg, ext := xf\<rparr>)"
    and quiet: "tables pg = []" "downloads pg = []" "metric_cards pg = []" "errors pg = []"
      "codes pg = []"
    using collect_results_raises [of rs p w0 e xf s1 x1 sg x2 s3 x3] unfolding p_def by auto
  have body: "try_body L T (Inr rs) p
      \<lparr>files = fs(p \<mapsto> getvalue up), page = upload_page up @ [Progress 0, Empty], ext = x0\<rparr> =
      (Some e, w0\<lparr>page := page w0 @ pg, ext := xf\<rparr>)"
    using collect by (simp add: try_body_def st_def start_page_def w0_def Let_def)
  have run: "script L T (Some up) True tmp_name (Inr rs) fs x0 =
      (None, cleanup p (w0\<lparr>page := page w0 @ pg @ error_page L e, ext := xf\<rparr>))"
    using body exc unfolding script_pressed p_def [symmetric]
    by (simp add: run_analysis_def st_def except_handler_def error_page_def Let_def w0_def)
  show ?thesis
    unfolding run p_def [symmetric]
    by (simp add: cleanup_removes cleanup_page cleanup_ext w0_def page_append quiet
        upload_page_quiet start_page_quiet error_page_shows)
qed

theorem runner_exception_aborts_witness:
  "is_Exception (Exception ''model file missing'') \<and>
   calculate_srmr failing_runners (tmp_path_of demo_lib demo_upload ''/tmp/tmpk3x9'') [] =
     (Inr (Some (Finite 9.5)), [''srmr'']) \<and>
   calculate_sigmos failing_runners (tmp_path_of demo_lib demo_upload ''/tmp/tmpk3x9'') [''srmr''] =
     (Inl (Exception ''model file missing''), [''srmr'', ''sigmos'']) \<and>
   fst (script demo_lib demo_thresholds (Some demo_upload) True ''/tmp/tmpk3x9''
      (Inr failing_runners) Map.empty []) = None \<and>
   errors (page (snd (script demo_lib demo_thresholds (Some demo_upload) True ''/tmp/tmpk3x9''
      (Inr failing_runners) Map.empty []))) =
     [''An error occurred during analysis: model file missing''] \<and>
   tables (page (snd (script demo_lib demo_thresholds (Some demo_upload) True ''/tmp/tmpk3x9''
      (Inr failing_runners) Map.empty []))) = [] \<and>
   downloads (page (snd (script demo_lib demo_thresholds (Some demo_upload) True ''/tmp/tmpk3x9''
      (Inr failing_runners) Map.empty []))) = [] \<and>
   ext (snd (script demo_lib demo_thresholds (Some demo_upload) True ''/tmp/tmpk3x9''
      (Inr failing_runners) Map.empty [])) = [''srmr'', ''sigmos'']"
proof -
  let ?p = "tmp_path_of demo_lib demo_upload ''/tmp/tmpk3x9''"
  have exc: "is_Exception (Exception ''model file missing'')" by simp
  have srmr: "calculate_srmr failing_runners ?p [] = (Inr (Some (Finite 9.5)), [''srmr''])"
    by (simp add: failing_runners_def demo_runners_def)
  have sigmos: "calculate_sigmos failing_runners ?p [''srmr''] =
      (Inl (Exception ''model file missing''), [''srmr'', ''sigmos''])"
    by (simp add: failing_runners_def demo_runners_def)
  have raises:
    "calculate_srmr failing_runners ?p [] = (Inl (Exception ''model file missing''), [''srmr'', ''sigmos'']) \<or>
     calculate_srmr failing_runners ?p [] = (Inr (Some (Finite 9.5)), [''srmr'']) \<and>
     (calculate_sigmos failing_runners ?p [''srmr''] =
        (Inl (Exception ''model file missing''), [''srmr'', ''sigmos'']) \<or>
      calculate_sigmos failing_runners ?p [''srmr''] = (Inr None, []) \<and>
      (calculate_vqscore failing_runners ?p [] =
         (Inl (Exception ''model file missing''), [''srmr'', ''sigmos'']) \<or>
       calculate_vqscore failing_runners ?p [] = (Inr None, []) \<and>
       calculate_wvmos failing_runners ?p [] =
         (Inl (Exception ''model file missing''), [''srmr'', ''sigmos''])))"
    using srmr sigmos by simp
  show ?thesis
    using runner_exception_aborts [OF exc raises, of demo_thresholds Map.empty] exc srmr sigmos
    by (simp add: demo_lib_simps)
qed

text \<open>
  C5. With SRMR 9.5 against the threshold 8.0, SIGMOS_OVRL 3.2 against 3.0, VQScore 0.55
  against 0.6 and WVMOS 3.0 against 2.5, the statuses of the report are PASS, PASS, FAIL,
  PASS and the summary shows 4 checks, 3 passed and 1 failed. (The floats nearest to
  these decimals stand in the same order to each other as the decimals do.)
\<close>

theorem example_report:
  "map (map Result \<circ> data)
     (tables (page (snd (script L demo_thresholds (Some up) True tmp_name (Inr demo_runners) fs [])))) =
     [[''PASS'', ''PASS'', ''FAIL'', ''PASS'']] \<and>
   metric_cards (page (snd (script L demo_thresholds (Some up) True tmp_name (Inr demo_runners) fs []))) =
     [(''Total Checks'', 4), (''Passed'', 3), (''Failed'', 1)]"
  by (simp add: script_def run_analysis_def try_body_def collect_results_def run_step_def
      st_def show_report_def pd_DataFrame_def compute_status_def cleanup_def
      demo_thresholds_def demo_runners_def tables_def metric_cards_def Let_def)

text \<open>
  C6. Two executions in which the runners return the same outputs offer the same CSV
  bytes under the same file name, whatever the temporary names, the file systems, the
  states of the libraries and the uploads are: the CSV depends on the outputs of the
  runners, the thresholds and the descriptions only.
\<close>

theorem csv_deterministic:
  assumes "calculate_srmr rs (tmp_path_of L up tmp_name) x0 = (Inr s1, x1)"
    and "calculate_sigmos rs (tmp_path_of L up tmp_name) x1 = (Inr sg, x2)"
    and "calculate_vqscore rs (tmp_path_of L up tmp_name) x2 = (Inr s3, x3)"
    and "calculate_wvmos rs (tmp_path_of L up tmp_name) x3 = (Inr s4, x4)"
    and "calculate_srmr rs' (tmp_path_of L up' tmp_name') y0 = (Inr s1, y1)"
    and "calculate_sigmos rs' (tmp_path_of L up' tmp_name') y1 = (Inr sg, y2)"
    and "calculate_vqscore rs' (tmp_path_of L up' tmp_name') y2 = (Inr s3, y3)"
    and "calculate_wvmos rs' (tmp_path_of L up' tmp_name') y3 = (Inr s4, y4)"
  shows "downloads (page (snd (script L T (Some up) True tmp_name (Inr rs) fs x0))) =
         downloads (page (snd (script L T (Some up') True tmp_name' (Inr rs') fs' y0)))"
  by (simp add: script_returns_page(2) [OF assms(1-4) refl refl]
      script_returns_page(2) [OF assms(5-8) refl refl])

theorem csv_deterministic_witness:
  "calculate_srmr demo_runners (tmp_path_of demo_lib demo_upload ''/tmp/tmpk3x9'') [] =
     (Inr (Some (Finite 9.5)), [''srmr'']) \<and>
   calculate_sigmos demo_runners (tmp_path_of demo_lib demo_upload ''/tmp/tmpk3x9'') [''srmr''] =
     (Inr (Some [(''SIGMOS_OVRL'', Some (Finite 3.2))]), [''srmr'', ''sigmos'']) \<and>
   calculate_vqscore demo_runners (tmp_path_of demo_lib demo_upload ''/tmp/tmpk3x9'')
     [''srmr'', ''sigmos''] = (Inr (Some (Finite 0.55)), [''srmr'', ''sigmos'', ''vqscore'']) \<and>
   calculate_wvmos demo_runners (tmp_path_of demo_lib demo_upload ''/tmp/tmpk3x9'')
     [''srmr'', ''sigmos'', ''vqscore''] =
     (Inr (Some (Finite 3.0)), [''srmr'', ''sigmos'', ''vqscore'', ''wvmos'']) \<and>
   calculate_srmr demo_runners (tmp_path_of demo_lib demo_upload ''/tmp/tmpq7m2'') [''warm''] =
     (Inr (Some (Finite 9.5)), [''warm'', ''srmr'']) \<and>
   calculate_sigmos demo_runners (tmp_path_of demo_lib demo_upload ''/tmp/tmpq7m2'')
     [''warm'', ''srmr''] =
     (Inr (Some [(''SIGMOS_OVRL'', Some (Finite 3.2))]), [''warm'', ''srmr'', ''sigmos'']) \<and>
   calculate_vqscore demo_runners (tmp_path_of demo_lib demo_upload ''/tmp/tmpq7m2'')
     [''warm'', ''srmr'', ''sigmos''] =
     (Inr (Some (Finite 0.55)), [''warm'', ''srmr'', ''sigmos'', ''vqscore'']) \<and>
   calculate_wvmos demo_runners (tmp_path_of demo_lib demo_upload ''/tmp/tmpq7m2'')
     [''warm'', ''srmr'', ''sigmos'', ''vqscore''] =
     (Inr (Some (Finite 3.0)), [''warm'', ''srmr'', ''sigmos'', ''vqscore'', ''wvmos'']) \<and>
   downloads (page (snd (script demo_lib demo_thresholds (Some demo_upload) True ''/tmp/tmpk3x9''
      (Inr demo_runners) Map.empty []))) =
   downloads (page (snd (script demo_lib demo_thresholds (Some demo_upload) True ''/tmp/tmpq7m2''
      (Inr demo_runners) [''/tmp/tmpk3x9.wav'' \<mapsto> [82, 73, 70, 70]] [''warm'']))) \<and>
   length (downloads (page (snd (script demo_lib demo_thresholds (Some demo_upload) True
      ''/tmp/tmpk3x9'' (Inr demo_runners) Map.empty [])))) = 1"
proof -
  let ?p = "tmp_path_of demo_lib demo_upload ''/tmp/tmpk3x9''"
  let ?q = "tmp_path_of demo_lib demo_upload ''/tmp/tmpq7m2''"
  have a1: "calculate_srmr demo_runners ?p [] = (Inr (Some (Finite 9.5)), [''srmr''])"
    and a2: "calculate_sigmos demo_runners ?p [''srmr''] =
      (Inr (Some [(''SIGMOS_OVRL'', Some (Finite 3.2))]), [''srmr'', ''sigmos''])"
    and a3: "calculate_vqscore demo_runners ?p [''srmr'', ''sigmos''] =
      (Inr (Some (Finite 0.55)), [''srmr'', ''sigmos'', ''vqscore''])"
    and a4: "calculate_wvmos demo_runners ?p [''srmr'', ''sigmos'', ''vqscore''] =
      (Inr (Some (Finite 3.0)), [''srmr'', ''sigmos'', ''vqscore'', ''wvmos''])"
    and b1: "calculate_srmr demo_runners ?q [''warm''] = (Inr (Some (Finite 9.5)), [''warm'', ''srmr''])"
    and b2: "calculate_sigmos demo_runners ?q [''warm'', ''srmr''] =
      (Inr (Some [(''SIGMOS_OVRL'', Some (Finite 3.2))]), [''warm'', ''srmr'', ''sigmos''])"
    and b3: "calculate_vqscore demo_runners ?q [''warm'', ''srmr'', ''sigmos''] =
      (Inr (Some (Finite 0.55)), [''warm'', ''srmr'', ''sigmos'', ''vqscore''])"
    and b4: "calculate_wvmos demo_runners ?q [''warm'', ''srmr'', ''sigmos'', ''vqscore''] =
      (Inr (Some (Finite 3.0)), [''warm'', ''srmr'', ''sigmos'', ''vqscore'', ''wvmos''])"
    by (simp_all add: demo_runs)
  have one: "length (downloads (page (snd (script demo_lib demo_thresholds (Some demo_upload) True
      ''/tmp/tmpk3x9'' (Inr demo_runners) Map.empty [])))) = 1"
    by (simp add: script_returns_page(2) [OF a1 a2 a3 a4 refl refl] demo_cover)
  show ?thesis
    using csv_deterministic [OF a1 a2 a3 a4 b1 b2 b3 b4, of demo_thresholds Map.empty
        "[''/tmp/tmpk3x9.wav'' \<mapsto> [82, 73, 70, 70]]"]
      a1 a2 a3 a4 b1 b2 b3 b4 one
    by simp
qed

text \<open>
  C7. In a completed run the frame that is shown has exactly the columns Metric,
  Description, Your Threshold, Score, Result. Its Score column is the column pandas
  builds from the scores rounded to three decimals (from \<^verbatim>\<open>None\<close> where there is no score),
  not from the scores as the runners returned them. The download button offers the
  UTF-8 encoding of the CSV text of this very frame, the one that is displayed, under
  the file name \<^verbatim>\<open>audio_analysis_report.csv\<close>.
\<close>

theorem csv_export:
  assumes "calculate_srmr rs (tmp_path_of L up tmp_name) x0 = (Inr s1, x1)"
    and "calculate_sigmos rs (tmp_path_of L up tmp_name) x1 = (Inr sg, x2)"
    and "calculate_vqscore rs (tmp_path_of L up tmp_name) x2 = (Inr s3, x3)"
    and "calculate_wvmos rs (tmp_path_of L up tmp_name) x3 = (Inr s4, x4)"
    and "thresholds_cover T
      ((''SRMR'', s1) # (case sg of None \<Rightarrow> [] | Some items \<Rightarrow> items) @
       [(''VQScore'', s3), (''WVMOS'', s4)])"
  shows "\<exists>df rounded.
    rounded = map (\<lambda>(metric_name, score). map_option (round3 L) score)
      ((''SRMR'', s1) # (case sg of None \<Rightarrow> [] | Some items \<Rightarrow> items) @
       [(''VQScore'', s3), (''WVMOS'', s4)]) \<and>
    tables (page (snd (script L T (Some up) True tmp_name (Inr rs) fs x0))) = [df] \<and>
    columns df = [''Metric'', ''Description'', ''Your Threshold'', ''Score'', ''Result''] \<and>
    map Score (data df) = map (column_cell L rounded) rounded \<and>
    downloads (page (snd (script L T (Some up) True tmp_name (Inr rs) fs x0))) =
      [(encode_utf8 L (to_csv L df), ''audio_analysis_report.csv'')]"
proof -
  have cover: "thresholds_cover T
      ((''SRMR'', s1) # sigmos_items sg @ [(''VQScore'', s3), (''WVMOS'', s4)])"
    using assms(5) by (simp add: sigmos_items_cases)
  define results where
    "results = (''SRMR'', s1) # sigmos_items sg @ [(''VQScore'', s3), (''WVMOS'', s4)]"
  define rounded where
    "rounded = map (\<lambda>(metric_name, score). map_option (round3 L) score) results"
  define df where "df = pd_DataFrame L (map (row_of L T) results)"
  have listed: "results =
      (''SRMR'', s1) # (case sg of None \<Rightarrow> [] | Some items \<Rightarrow> items) @
      [(''VQScore'', s3), (''WVMOS'', s4)]"
    by (simp add: results_def sigmos_items_cases)
  have tab: "tables (page (snd (script L T (Some up) True tmp_name (Inr rs) fs x0))) = [df]"
    using cover
    by (simp add: script_returns_page(1) [OF assms(1-4) results_def refl] df_def results_def)
  have dl: "downloads (page (snd (script L T (Some up) True tmp_name (Inr rs) fs x0))) =
      [(encode_utf8 L (to_csv L df), ''audio_analysis_report.csv'')]"
    using cover
    by (simp add: script_returns_page(2) [OF assms(1-4) results_def refl] df_def results_def)
  have "results \<noteq> []" by (simp add: results_def)
  then have cols: "columns df =
      [''Metric'', ''Description'', ''Your Threshold'', ''Score'', ''Result'']"
    by (simp add: df_def pd_DataFrame_fields)
  have "map Score (map (row_of L T) results) = rounded"
    by (simp add: rounded_def row_of_fields split_def)
  then have scores: "map Score (data df) = map (column_cell L rounded) rounded"
    by (simp only: df_def pd_DataFrame_fields)
  from tab cols scores dl show ?thesis
    unfolding rounded_def listed by blast
qed

theorem csv_export_witness:
  "calculate_srmr rounding_runners (tmp_path_of demo_lib demo_upload ''/tmp/tmpk3x9'') [] =
     (Inr (Some (Finite 9.48765)), [''srmr'']) \<and>
   calculate_sigmos rounding_runners (tmp_path_of demo_lib demo_upload ''/tmp/tmpk3x9'') [''srmr''] =
     (Inr (Some [(''SIGMOS_OVRL'', Some (Finite 3.2))]), [''srmr'', ''sigmos'']) \<and>
   calculate_vqscore rounding_runners (tmp_path_of demo_lib demo_upload ''/tmp/tmpk3x9'')
     [''srmr'', ''sigmos''] = (Inr (Some (Finite 0.55)), [''srmr'', ''sigmos'', ''vqscore'']) \<and>
   calculate_wvmos rounding_runners (tmp_path_of demo_lib demo_upload ''/tmp/tmpk3x9'')
     [''srmr'', ''sigmos'', ''vqscore''] = (Inr None, [''srmr'', ''sigmos'', ''vqscore'', ''wvmos'']) \<and>
   thresholds_cover demo_thresholds
     ((''SRMR'', Some (Finite 9.48765)) #
      (case Some [(''SIGMOS_OVRL'', Some (Finite 3.2))] of None \<Rightarrow> [] | Some items \<Rightarrow> items) @
      [(''VQScore'', Some (Finite 0.55)), (''WVMOS'', None)]) \<and>
   map (map Score \<circ> data) (tables (page (snd (script demo_lib demo_thresholds (Some demo_upload) True ''/tmp/tmpk3x9''
      (Inr rounding_runners) Map.empty [])))) =
     [[Some (Finite 9.488), Some (Finite 3.2), Some (Finite 0.55), Some NaN]] \<and>
   map columns (tables (page (snd (script demo_lib demo_thresholds (Some demo_upload) True ''/tmp/tmpk3x9''
      (Inr rounding_runners) Map.empty [])))) =
     [[''Metric'', ''Description'', ''Your Threshold'', ''Score'', ''Result'']] \<and>
   downloads (page (snd (script demo_lib demo_thresholds (Some demo_upload) True ''/tmp/tmpk3x9''
      (Inr rounding_runners) Map.empty []))) =
     [(encode_utf8 demo_lib
        (csv_lines
          [''Metric,Description,Your Threshold,Score,Result'',
           ''SRMR,Technical measurement of reverberation and room acoustics,8.0,9.488,PASS'',
           ''SIGMOS_OVRL,Comprehensive overall audio quality,3.0,3.2,PASS'',
           ''VQScore,Overall voice quality assessment,0.6,0.55,FAIL'',
           ''WVMOS,Predicted subjective quality rating,2.5,,FAIL'']),
       ''audio_analysis_report.csv'')]"
proof -
  let ?p = "tmp_path_of demo_lib demo_upload ''/tmp/tmpk3x9''"
  have a1: "calculate_srmr rounding_runners ?p [] = (Inr (Some (Finite 9.48765)), [''srmr''])"
    and a2: "calculate_sigmos rounding_runners ?p [''srmr''] =
      (Inr (Some [(''SIGMOS_OVRL'', Some (Finite 3.2))]), [''srmr'', ''sigmos''])"
    and a3: "calculate_vqscore rounding_runners ?p [''srmr'', ''sigmos''] =
      (Inr (Some (Finite 0.55)), [''srmr'', ''sigmos'', ''vqscore''])"
    and a4: "calculate_wvmos rounding_runners ?p [''srmr'', ''sigmos'', ''vqscore''] =
      (Inr None, [''srmr'', ''sigmos'', ''vqscore'', ''wvmos''])"
    by (simp_all add: rounding_runs)
  have cover: "thresholds_cover demo_thresholds
     ((''SRMR'', Some (Finite 9.48765)) #
      (case Some [(''SIGMOS_OVRL'', Some (Finite 3.2))] of None \<Rightarrow> [] | Some items \<Rightarrow> items) @
      [(''VQScore'', Some (Finite 0.55)), (''WVMOS'', None)])"
    using demo_cover(3) by simp
  from csv_export [OF a1 a2 a3 a4 cover, of Map.empty] obtain df rounded where
    rounded: "rounded = map (\<lambda>(metric_name, score). map_option (round3 demo_lib) score)
     ((''SRMR'', Some (Finite 9.48765)) #
      (case Some [(''SIGMOS_OVRL'', Some (Finite 3.2))] of None \<Rightarrow> [] | Some items \<Rightarrow> items) @
      [(''VQScore'', Some (Finite 0.55)), (''WVMOS'', None)])"
    and tab: "tables (page (snd (script demo_lib demo_thresholds (Some demo_upload) True ''/tmp/tmpk3x9''
      (Inr rounding_runners) Map.empty []))) = [df]"
    and cols: "columns df = [''Metric'', ''Description'', ''Your Threshold'', ''Score'', ''Result'']"
    and scores: "map Score (data df) = map (column_cell demo_lib rounded) rounded"
    and dl: "downloads (page (snd (script demo_lib demo_thresholds (Some demo_upload) True ''/tmp/tmpk3x9''
      (Inr rounding_runners) Map.empty []))) =
        [(encode_utf8 demo_lib (to_csv demo_lib df), ''audio_analysis_report.csv'')]"
    by blast
  have vals: "rounded = [Some (Finite 9.488), Some (Finite 3.2), Some (Finite 0.55), None]"
    by (simp add: rounded demo_round3 round_half_even_def Let_def floor_rat_numeral)
  have stored: "map Score (data df) =
      [Some (Finite 9.488), Some (Finite 3.2), Some (Finite 0.55), Some NaN]"
    by (simp add: scores vals demo_lib_simps demo_column_cell_def)
  have df: "df = pd_DataFrame demo_lib (map (row_of demo_lib demo_thresholds)
      [(''SRMR'', Some (Finite 9.48765)), (''SIGMOS_OVRL'', Some (Finite 3.2)),
       (''VQScore'', Some (Finite 0.55)), (''WVMOS'', None)])"
    using tab demo_cover(3)
    by (simp add: script_returns_page(1) [OF a1 a2 a3 a4 refl refl])
  have csv: "to_csv demo_lib df =
        csv_lines
          [''Metric,Description,Your Threshold,Score,Result'',
           ''SRMR,Technical measurement of reverberation and room acoustics,8.0,9.488,PASS'',
           ''SIGMOS_OVRL,Comprehensive overall audio quality,3.0,3.2,PASS'',
           ''VQScore,Overall voice quality assessment,0.6,0.55,FAIL'',
           ''WVMOS,Predicted subjective quality rating,2.5,,FAIL'']"
    by (simp add: df demo_lib_simps demo_to_csv_def pd_DataFrame_def row_of_def
        description_of_def METRIC_DESCRIPTIONS_def status_rule_def demo_thresholds_def
        demo_column_cell_def demo_round3 round_half_even_def Let_def floor_rat_numeral
        show_nat_numeral)
  show ?thesis
    using a1 a2 a3 a4 cover cols stored
    by (simp add: tab dl csv)
qed

text \<open>
  C8. In a completed run the rows of the report are in the order of the calls of the
  runners: the row of SRMR, then one row for each item of the dictionary returned by the
  SigMOS runner, in the order of that dictionary (none when it returned \<^verbatim>\<open>None\<close>), then
  VQScore, then WVMOS. The runners are called in this order: each one runs on the state
  of the libraries left by the one before, and the status lines appear in this order.
\<close>

theorem report_rows_in_invocation_order:
  assumes "calculate_srmr rs (tmp_path_of L up tmp_name) x0 = (Inr s1, x1)"
    and "calculate_sigmos rs (tmp_path_of L up tmp_name) x1 = (Inr sg, x2)"
    and "calculate_vqscore rs (tmp_path_of L up tmp_name) x2 = (Inr s3, x3)"
    and "calculate_wvmos rs (tmp_path_of L up tmp_name) x3 = (Inr s4, x4)"
    and "thresholds_cover T
      ((''SRMR'', s1) # (case sg of None \<Rightarrow> [] | Some items \<Rightarrow> items) @
       [(''VQScore'', s3), (''WVMOS'', s4)])"
  shows "map (map Metric \<circ> data)
      (tables (page (snd (script L T (Some up) True tmp_name (Inr rs) fs x0)))) =
      [case sg of
         None \<Rightarrow> [''SRMR'', ''VQScore'', ''WVMOS'']
       | Some items \<Rightarrow> ''SRMR'' # map fst items @ [''VQScore'', ''WVMOS'']] \<and>
    status_texts (page (snd (script L T (Some up) True tmp_name (Inr rs) fs x0))) =
      [''Running SRMR...'', ''Running SigMOS...'', ''Running VQScore...'', ''Running WVMOS...'',
       ''Analysis Complete!''] \<and>
    ext (snd (script L T (Some up) True tmp_name (Inr rs) fs x0)) = x4"
proof -
  have cover: "thresholds_cover T
      ((''SRMR'', s1) # sigmos_items sg @ [(''VQScore'', s3), (''WVMOS'', s4)])"
    using assms(5) by (simp add: sigmos_items_cases)
  have state: "ext (snd (script L T (Some up) True tmp_name (Inr rs) fs x0)) = x4"
    by (simp add: script_returns [OF assms(1-4)])
  have rows: "map (map Metric \<circ> data)
      (tables (page (snd (script L T (Some up) True tmp_name (Inr rs) fs x0)))) =
      [''SRMR'' # map fst (sigmos_items sg) @ [''VQScore'', ''WVMOS'']]"
    using cover
    by (simp add: script_returns_page(1) [OF assms(1-4) refl refl] pd_DataFrame_fields
        row_of_fields comp_def)
  have texts: "status_texts (page (snd (script L T (Some up) True tmp_name (Inr rs) fs x0))) =
      [''Running SRMR...'', ''Running SigMOS...'', ''Running VQScore...'', ''Running WVMOS...'',
       ''Analysis Complete!'']"
    by (rule script_returns_page(6) [OF assms(1-4) refl refl])
  show ?thesis
    unfolding rows texts state by (cases sg) simp_all
qed

theorem report_rows_in_invocation_order_witness:
  "calculate_srmr two_sigmos_runners (tmp_path_of demo_lib demo_upload ''/tmp/tmpk3x9'') [] =
     (Inr (Some (Finite 9.5)), [''srmr'']) \<and>
   calculate_sigmos two_sigmos_runners (tmp_path_of demo_lib demo_upload ''/tmp/tmpk3x9'') [''srmr''] =
     (Inr (Some [(''SIGMOS_DISC'', Some (Finite 4.1)), (''SIGMOS_OVRL'', Some (Finite 2.9))]),
      [''srmr'', ''sigmos'']) \<and>
   calculate_vqscore two_sigmos_runners (tmp_path_of demo_lib demo_upload ''/tmp/tmpk3x9'')
     [''srmr'', ''sigmos''] = (Inr (Some (Finite 0.55)), [''srmr'', ''sigmos'', ''vqscore'']) \<and>
   calculate_wvmos two_sigmos_runners (tmp_path_of demo_lib demo_upload ''/tmp/tmpk3x9'')
     [''srmr'', ''sigmos'', ''vqscore''] =
     (Inr (Some (Finite 3.0)), [''srmr'', ''sigmos'', ''vqscore'', ''wvmos'']) \<and>
   thresholds_cover two_sigmos_thresholds
     ((''SRMR'', Some (Finite 9.5)) #
      (case Some [(''SIGMOS_DISC'', Some (Finite 4.1)), (''SIGMOS_OVRL'', Some (Finite 2.9))] of
         None \<Rightarrow> [] | Some items \<Rightarrow> items) @
      [(''VQScore'', Some (Finite 0.55)), (''WVMOS'', Some (Finite 3.0))]) \<and>
   map (map Metric \<circ> data) (tables (page (snd (script demo_lib two_sigmos_thresholds (Some demo_upload) True ''/tmp/tmpk3x9''
      (Inr two_sigmos_runners) Map.empty [])))) =
     [[''SRMR'', ''SIGMOS_DISC'', ''SIGMOS_OVRL'', ''VQScore'', ''WVMOS'']] \<and>
   map (map Result \<circ> data) (tables (page (snd (script demo_lib two_sigmos_thresholds (Some demo_upload) True ''/tmp/tmpk3x9''
      (Inr two_sigmos_runners) Map.empty [])))) =
     [[''PASS'', ''PASS'', ''FAIL'', ''FAIL'', ''PASS'']] \<and>
   ext (snd (script demo_lib two_sigmos_thresholds (Some demo_upload) True ''/tmp/tmpk3x9''
      (Inr two_sigmos_runners) Map.empty [])) =
     [''srmr'', ''sigmos'', ''vqscore'', ''wvmos'']"
proof -
  let ?p = "tmp_path_of demo_lib demo_upload ''/tmp/tmpk3x9''"
  have a1: "calculate_srmr two_sigmos_runners ?p [] = (Inr (Some (Finite 9.5)), [''srmr''])"
    and a2: "calculate_sigmos two_sigmos_runners ?p [''srmr''] =
      (Inr (Some [(''SIGMOS_DISC'', Some (Finite 4.1)), (''SIGMOS_OVRL'', Some (Finite 2.9))]),
       [''srmr'', ''sigmos''])"
    and a3: "calculate_vqscore two_sigmos_runners ?p [''srmr'', ''sigmos''] =
      (Inr (Some (Finite 0.55)), [''srmr'', ''sigmos'', ''vqscore''])"
    and a4: "calculate_wvmos two_sigmos_runners ?p [''srmr'', ''sigmos'', ''vqscore''] =
      (Inr (Some (Finite 3.0)), [''srmr'', ''sigmos'', ''vqscore'', ''wvmos''])"
    by (simp_all add: two_sigmos_runs)
  have cover: "thresholds_cover two_sigmos_thresholds
     ((''SRMR'', Some (Finite 9.5)) #
      (case Some [(''SIGMOS_DISC'', Some (Finite 4.1)), (''SIGMOS_OVRL'', Some (Finite 2.9))] of
         None \<Rightarrow> [] | Some items \<Rightarrow> items) @
      [(''VQScore'', Some (Finite 0.55)), (''WVMOS'', Some (Finite 3.0))])"
    using demo_cover(4) by simp
  have results: "map (map Result \<circ> data) (tables (page (snd (script demo_lib two_sigmos_thresholds (Some demo_upload) True ''/tmp/tmpk3x9''
      (Inr two_sigmos_runners) Map.empty [])))) =
     [[''PASS'', ''PASS'', ''FAIL'', ''FAIL'', ''PASS'']]"
    using demo_cover(4) [of "Finite 9.5" "Finite 4.1" "Finite 2.9" "Finite 0.55" "Finite 3.0"]
    by (simp add: script_returns_page(1) [OF a1 a2 a3 a4 refl refl] pd_DataFrame_fields
        row_of_fields status_rule_def two_sigmos_thresholds_def demo_thresholds_def comp_def)
  show ?thesis
    using report_rows_in_invocation_order [OF a1 a2 a3 a4 cover, of Map.empty]
      a1 a2 a3 a4 cover results
    by simp
qed

text \<open>
  C9. If the SigMOS runner returns \<^verbatim>\<open>None\<close> or an empty dictionary, the other three
  runners return and their metrics have thresholds (or no score), then the run completes:
  the script ends normally, no error is shown, the report has exactly the three rows
  SRMR, VQScore and WVMOS, and the download button is offered.
\<close>

theorem empty_sigmos_gives_three_rows:
  assumes "calculate_srmr rs (tmp_path_of L up tmp_name) x0 = (Inr s1, x1)"
    and "calculate_sigmos rs (tmp_path_of L up tmp_name) x1 = (Inr sg, x2)"
    and "sg = None \<or> sg = Some []"
    and "calculate_vqscore rs (tmp_path_of L up tmp_name) x2 = (Inr s3, x3)"
    and "calculate_wvmos rs (tmp_path_of L up tmp_name) x3 = (Inr s4, x4)"
    and "thresholds_cover T [(''SRMR'', s1), (''VQScore'', s3), (''WVMOS'', s4)]"
  shows "fst (script L T (Some up) True tmp_name (Inr rs) fs x0) = None \<and>
    errors (page (snd (script L T (Some up) True tmp_name (Inr rs) fs x0))) = [] \<and>
    map (map Metric \<circ> data)
      (tables (page (snd (script L T (Some up) True tmp_name (Inr rs) fs x0)))) =
      [[''SRMR'', ''VQScore'', ''WVMOS'']] \<and>
    length (downloads (page (snd (script L T (Some up) True tmp_name (Inr rs) fs x0)))) = 1"
proof -
  from assms(3) have empty: "sigmos_items sg = []" by auto
  have out: "fst (script L T (Some up) True tmp_name (Inr rs) fs x0) = None"
    by (simp add: script_returns [OF assms(1,2,4,5)])
  show ?thesis
    using assms(6) out
    by (simp add: script_returns_page(1,2,4) [OF assms(1,2,4,5) refl refl] empty
        pd_DataFrame_fields row_of_fields comp_def)
qed

theorem empty_sigmos_gives_three_rows_witness:
  "calculate_srmr empty_sigmos_runners (tmp_path_of demo_lib demo_upload ''/tmp/tmpk3x9'') [] =
     (Inr (Some (Finite 9.5)), [''srmr'']) \<and>
   calculate_sigmos empty_sigmos_runners (tmp_path_of demo_lib demo_upload ''/tmp/tmpk3x9'') [''srmr''] =
     (Inr (Some []), [''srmr'', ''sigmos'']) \<and>
   calculate_vqscore empty_sigmos_runners (tmp_path_of demo_lib demo_upload ''/tmp/tmpk3x9'')
     [''srmr'', ''sigmos''] = (Inr (Some (Finite 0.55)), [''srmr'', ''sigmos'', ''vqscore'']) \<and>
   calculate_wvmos empty_sigmos_runners (tmp_path_of demo_lib demo_upload ''/tmp/tmpk3x9'')
     [''srmr'', ''sigmos'', ''vqscore''] =
     (Inr (Some (Finite 3.0)), [''srmr'', ''sigmos'', ''vqscore'', ''wvmos'']) \<and>
   (Some [] = (None :: (string \<times> score) list option) \<or>
    Some [] = (Some [] :: (string \<times> score) list option)) \<and>
   thresholds_cover demo_thresholds
     [(''SRMR'', Some (Finite 9.5)), (''VQScore'', Some (Finite 0.55)), (''WVMOS'', Some (Finite 3.0))] \<and>
   errors (page (snd (script demo_lib demo_thresholds (Some demo_upload) True ''/tmp/tmpk3x9''
      (Inr empty_sigmos_runners) Map.empty []))) = [] \<and>
   map (map Metric \<circ> data) (tables (page (snd (script demo_lib demo_thresholds (Some demo_upload) True ''/tmp/tmpk3x9''
      (Inr empty_sigmos_runners) Map.empty [])))) =
     [[''SRMR'', ''VQScore'', ''WVMOS'']] \<and>
   length (downloads (page (snd (script demo_lib demo_thresholds (Some demo_upload) True ''/tmp/tmpk3x9''
      (Inr empty_sigmos_runners) Map.empty [])))) = 1"
proof -
  let ?p = "tmp_path_of demo_lib demo_upload ''/tmp/tmpk3x9''"
  have a1: "calculate_srmr empty_sigmos_runners ?p [] = (Inr (Some (Finite 9.5)), [''srmr''])"
    and a2: "calculate_sigmos empty_sigmos_runners ?p [''srmr''] = (Inr (Some []), [''srmr'', ''sigmos''])"
    and a3: "calculate_vqscore empty_sigmos_runners ?p [''srmr'', ''sigmos''] =
      (Inr (Some (Finite 0.55)), [''srmr'', ''sigmos'', ''vqscore''])"
    and a4: "calculate_wvmos empty_sigmos_runners ?p [''srmr'', ''sigmos'', ''vqscore''] =
      (Inr (Some (Finite 3.0)), [''srmr'', ''sigmos'', ''vqscore'', ''wvmos''])"
    by (simp_all add: empty_sigmos_runs)
  have falsy: "Some [] = (None :: (string \<times> score) list option) \<or>
      Some [] = (Some [] :: (string \<times> score) list option)"
    by simp
  have cover: "thresholds_cover demo_thresholds
     [(''SRMR'', Some (Finite 9.5)), (''VQScore'', Some (Finite 0.55)), (''WVMOS'', Some (Finite 3.0))]"
    by (rule demo_cover(2))
  show ?thesis
    using empty_sigmos_gives_three_rows [OF a1 a2 falsy a3 a4 cover, of Map.empty] a1 a2 a3 a4 cover
    by simp
qed

text \<open>
  C10. In a completed run the three summary cards show Total, the number of rows of the
  report, Passed, the number of rows whose Result is PASS, and Failed, computed as Total
  minus Passed, which is the number of rows whose Result is not PASS; Passed plus Failed
  is Total.
\<close>

theorem summary_counts_add_up:
  assumes "calculate_srmr rs (tmp_path_of L up tmp_name) x0 = (Inr s1, x1)"
    and "calculate_sigmos rs (tmp_path_of L up tmp_name) x1 = (Inr sg, x2)"
    and "calculate_vqscore rs (tmp_path_of L up tmp_name) x2 = (Inr s3, x3)"
    and "calculate_wvmos rs (tmp_path_of L up tmp_name) x3 = (Inr s4, x4)"
    and "thresholds_cover T ((''SRMR'', s1) # sigmos_items sg @ [(''VQScore'', s3), (''WVMOS'', s4)])"
  shows "\<exists>df total passed failed.
    tables (page (snd (script L T (Some up) True tmp_name (Inr rs) fs x0))) = [df] \<and>
    metric_cards (page (snd (script L T (Some up) True tmp_name (Inr rs) fs x0))) =
      [(''Total Checks'', total), (''Passed'', passed), (''Failed'', failed)] \<and>
    total = int (length (data df)) \<and>
    passed = int (length (filter (\<lambda>r. Result r = ''PASS'') (data df))) \<and>
    failed = total - passed \<and>
    failed = int (length (filter (\<lambda>r. Result r \<noteq> ''PASS'') (data df))) \<and>
    passed + failed = total"
proof -
  define df where
    "df = pd_DataFrame L (map (row_of L T)
       ((''SRMR'', s1) # sigmos_items sg @ [(''VQScore'', s3), (''WVMOS'', s4)]))"
  have compl: "int (length (data df)) - int (length (filter (\<lambda>r. Result r = ''PASS'') (data df))) =
      int (length (filter (\<lambda>r. Result r \<noteq> ''PASS'') (data df)))"
    using sum_length_filter_compl [of "\<lambda>r. Result r = ''PASS''" "data df"] by simp
  have tab: "tables (page (snd (script L T (Some up) True tmp_name (Inr rs) fs x0))) = [df]"
    using assms(5) by (simp add: script_returns_page(1) [OF assms(1-4) refl refl] df_def)
  have cards: "metric_cards (page (snd (script L T (Some up) True tmp_name (Inr rs) fs x0))) =
      [(''Total Checks'', int (length (data df))),
       (''Passed'', int (length (filter (\<lambda>r. Result r = ''PASS'') (data df)))),
       (''Failed'', int (length (data df)) -
          int (length (filter (\<lambda>r. Result r = ''PASS'') (data df))))]"
    using assms(5) by (simp add: script_returns_page(3) [OF assms(1-4) refl refl] df_def)
  from tab cards compl show ?thesis by simp
qed

theorem summary_counts_add_up_witness:
  "calculate_srmr demo_runners (tmp_path_of demo_lib demo_upload ''/tmp/tmpk3x9'') [] =
     (Inr (Some (Finite 9.5)), [''srmr'']) \<and>
   calculate_sigmos demo_runners (tmp_path_of demo_lib demo_upload ''/tmp/tmpk3x9'') [''srmr''] =
     (Inr (Some [(''SIGMOS_OVRL'', Some (Finite 3.2))]), [''srmr'', ''sigmos'']) \<and>
   calculate_vqscore demo_runners (tmp_path_of demo_lib demo_upload ''/tmp/tmpk3x9'')
     [''srmr'', ''sigmos''] = (Inr (Some (Finite 0.55)), [''srmr'', ''sigmos'', ''vqscore'']) \<and>
   calculate_wvmos demo_runners (tmp_path_of demo_lib demo_upload ''/tmp/tmpk3x9'')
     [''srmr'', ''sigmos'', ''vqscore''] =
     (Inr (Some (Finite 3.0)), [''srmr'', ''sigmos'', ''vqscore'', ''wvmos'']) \<and>
   thresholds_cover demo_thresholds
     ((''SRMR'', Some (Finite 9.5)) # sigmos_items (Some [(''SIGMOS_OVRL'', Some (Finite 3.2))]) @
      [(''VQScore'', Some (Finite 0.55)), (''WVMOS'', Some (Finite 3.0))]) \<and>
   metric_cards (page (snd (script demo_lib demo_thresholds (Some demo_upload) True ''/tmp/tmpk3x9''
      (Inr demo_runners) Map.empty []))) =
     [(''Total Checks'', 4), (''Passed'', 3), (''Failed'', 1)] \<and>
   (3 :: int) + 1 = 4"
proof -
  let ?p = "tmp_path_of demo_lib demo_upload ''/tmp/tmpk3x9''"
  have a1: "calculate_srmr demo_runners ?p [] = (Inr (Some (Finite 9.5)), [''srmr''])"
    and a2: "calculate_sigmos demo_runners ?p [''srmr''] = (Inr (Some [(''SIGMOS_OVRL'', Some (Finite 3.2))]), [''srmr'', ''sigmos''])"
    and a3: "calculate_vqscore demo_runners ?p [''srmr'', ''sigmos''] =
      (Inr (Some (Finite 0.55)), [''srmr'', ''sigmos'', ''vqscore''])"
    and a4: "calculate_wvmos demo_runners ?p [''srmr'', ''sigmos'', ''vqscore''] =
      (Inr (Some (Finite 3.0)), [''srmr'', ''sigmos'', ''vqscore'', ''wvmos''])"
    by (simp_all add: demo_runs)
  have cover: "thresholds_cover demo_thresholds
     ((''SRMR'', Some (Finite 9.5)) # sigmos_items (Some [(''SIGMOS_OVRL'', Some (Finite 3.2))]) @
      [(''VQScore'', Some (Finite 0.55)), (''WVMOS'', Some (Finite 3.0))])"
    using demo_cover(1) by simp
  from summary_counts_add_up [OF a1 a2 a3 a4 cover, of Map.empty] obtain df total passed failed where
    tab: "tables (page (snd (script demo_lib demo_thresholds (Some demo_upload) True ''/tmp/tmpk3x9''
      (Inr demo_runners) Map.empty []))) = [df]"
    and cards: "metric_cards (page (snd (script demo_lib demo_thresholds (Some demo_upload) True ''/tmp/tmpk3x9''
      (Inr demo_runners) Map.empty []))) =
      [(''Total Checks'', total), (''Passed'', passed), (''Failed'', failed)]"
    and total: "total = int (length (data df))"
    and passed: "passed = int (length (filter (\<lambda>r. Result r = ''PASS'') (data df)))"
    and failed: "failed = total - passed"
    by blast
  have df: "df = pd_DataFrame demo_lib (map (row_of demo_lib demo_thresholds)
      [(''SRMR'', Some (Finite 9.5)), (''SIGMOS_OVRL'', Some (Finite 3.2)),
       (''VQScore'', Some (Finite 0.55)), (''WVMOS'', Some (Finite 3.0))])"
    using tab cover by (simp add: script_returns_page(1) [OF a1 a2 a3 a4 refl refl])
  have "total = 4" "passed = 3"
    by (simp_all add: total passed df pd_DataFrame_def row_of_def status_rule_def
        demo_thresholds_def)
  with failed have "failed = 1" by simp
  show ?thesis
    using a1 a2 a3 a4 cover \<open>total = 4\<close> \<open>passed = 3\<close> \<open>failed = 1\<close>
    by (simp add: cards)
qed

end
